theory Spec2Isabelle
  imports Complex_Main "HOL-Library.Word" "HOL-Library.Signed_Division"
begin

section \<open>The bitrate controller of webrtc/modules/bitrate_controller\<close>

text \<open>
  A shallow embedding of \<^verbatim>\<open>bitrate_controller_impl.cc\<close>: the class
  \<^verbatim>\<open>BitrateControllerImpl\<close> and its nested class
  \<^verbatim>\<open>RtcpBandwidthObserverImpl\<close>.

  The C++ integer types are words of their width: \<^verbatim>\<open>uint32_t\<close> and
  \<^verbatim>\<open>uint8_t\<close> are read unsigned (\<open>unat\<close>, \<open>\<le>\<close>, \<open>min\<close>, \<open>max\<close>),
  \<^verbatim>\<open>int\<close> and \<^verbatim>\<open>int64_t\<close> are read in two's complement (\<open>sint\<close>, \<open><s\<close>).
  Arithmetic wraps around; where the C++ leaves signed overflow undefined the theorems
  carry the bounds under which no overflow happens.
\<close>

type_synonym uint32_t = "32 word"
type_synonym uint8_t = "8 word"
type_synonym int64_t = "64 word"
type_synonym int_t = "32 word"

subsection \<open>C++ arithmetic on \<^verbatim>\<open>int\<close> and \<^verbatim>\<open>int64_t\<close>\<close>

text \<open>The quotient of two \<^verbatim>\<open>int\<close>s truncates towards zero.\<close>

definition int_div :: "int_t \<Rightarrow> int_t \<Rightarrow> int_t" where
  "int_div a b = word_of_int (sint a sdiv sint b)"

text \<open>\<^verbatim>\<open>std::max<int64_t>\<close>: the larger of two signed values.\<close>

definition max_int64 :: "int64_t \<Rightarrow> int64_t \<Rightarrow> int64_t" where
  "max_int64 a b = (if a <s b then b else a)"

subsection \<open>The collaborators the controller owns\<close>

text \<open>
  \<^verbatim>\<open>SendSideBandwidthEstimation\<close> (the member \<^verbatim>\<open>bandwidth_estimation_\<close>) and
  \<^verbatim>\<open>RembSuppressor\<close> (the member \<^verbatim>\<open>remb_suppressor_\<close>) are defined outside this
  file. The controller only calls their methods, so the embedding takes them as
  parameters: \<open>'e\<close> is the state of the estimator, \<open>'r\<close> the state of the
  suppressor, and the record below holds one function per method the controller calls.
  \<^verbatim>\<open>CurrentEstimate\<close> and \<^verbatim>\<open>GetMinBitrate\<close> are called from the \<^verbatim>\<open>const\<close> method
  \<^verbatim>\<open>AvailableBandwidth\<close>, so they read the estimator without changing it. The
  suppressor was built with the clock, so its methods get the clock's reading.
\<close>

record ('e, 'r) collaborators =
  bwe_SetSendBitrate :: "int_t \<Rightarrow> 'e \<Rightarrow> 'e"
  bwe_SetMinMaxBitrate :: "int_t \<Rightarrow> int_t \<Rightarrow> 'e \<Rightarrow> 'e"
  bwe_UpdateReceiverEstimate :: "uint32_t \<Rightarrow> 'e \<Rightarrow> 'e"
  bwe_UpdateReceiverBlock :: "uint8_t \<Rightarrow> int64_t \<Rightarrow> int_t \<Rightarrow> int64_t \<Rightarrow> 'e \<Rightarrow> 'e"
  bwe_UpdateEstimate :: "int64_t \<Rightarrow> 'e \<Rightarrow> 'e"
  bwe_CurrentEstimate :: "'e \<Rightarrow> uint32_t \<times> uint8_t \<times> int64_t"
  bwe_GetMinBitrate :: "'e \<Rightarrow> uint32_t"
  remb_SuppresNewRemb :: "int64_t \<Rightarrow> uint32_t \<Rightarrow> 'r \<Rightarrow> bool \<times> 'r"
  remb_SetBitrateSent :: "int64_t \<Rightarrow> uint32_t \<Rightarrow> 'r \<Rightarrow> 'r"
  remb_SetEnabled :: "int64_t \<Rightarrow> bool \<Rightarrow> 'r \<Rightarrow> 'r"

datatype VideoCodecMode = kRealtimeVideo | kScreensharing

subsection \<open>The controller\<close>

text \<open>
  The data members of \<^verbatim>\<open>BitrateControllerImpl\<close>, without the trailing underscore of
  their C++ names. The clock, the observer and the critical section are not state of
  the controller: a clock reading is an argument of every method that asks for the
  time, and each call of \<^verbatim>\<open>observer_->OnNetworkChanged\<close> is an element of the list
  a method returns beside the new state.
\<close>

record ('e, 'r) BitrateControllerImpl =
  last_bitrate_update_ms :: int64_t
  bandwidth_estimation :: 'e
  reserved_bitrate_bps :: uint32_t
  last_bitrate_bps :: uint32_t
  last_fraction_loss :: uint8_t
  last_rtt_ms :: int64_t
  last_reserved_bitrate_bps :: uint32_t
  remb_suppressor :: 'r

text \<open>One call of \<^verbatim>\<open>OnNetworkChanged(bitrate, fraction_loss, rtt)\<close>.\<close>

type_synonym notification = "uint32_t \<times> uint8_t \<times> int64_t"

text \<open>
  The constructor: \<open>now\<close> is the clock's reading, \<open>e0\<close> the default-constructed
  estimator and \<open>r0\<close> the new suppressor.
\<close>

definition BitrateControllerImpl_new ::
  "int64_t \<Rightarrow> 'e \<Rightarrow> 'r \<Rightarrow> ('e, 'r) BitrateControllerImpl" where
  "BitrateControllerImpl_new now e0 r0 =
     \<lparr>last_bitrate_update_ms = now,
      bandwidth_estimation = e0,
      reserved_bitrate_bps = 0,
      last_bitrate_bps = 0,
      last_fraction_loss = 0,
      last_rtt_ms = 0,
      last_reserved_bitrate_bps = 0,
      remb_suppressor = r0\<rparr>"

definition MaybeTriggerOnNetworkChanged ::
  "('e, 'r) collaborators \<Rightarrow> ('e, 'r) BitrateControllerImpl
     \<Rightarrow> ('e, 'r) BitrateControllerImpl \<times> notification list" where
  "MaybeTriggerOnNetworkChanged ops c =
     (case bwe_CurrentEstimate ops (bandwidth_estimation c) of
        (bitrate0, fraction_loss, rtt) \<Rightarrow>
          let bitrate1 = bitrate0 - min bitrate0 (reserved_bitrate_bps c);
              bitrate = max bitrate1 (bwe_GetMinBitrate ops (bandwidth_estimation c))
          in if bitrate \<noteq> last_bitrate_bps c \<or> fraction_loss \<noteq> last_fraction_loss c \<or>
                rtt \<noteq> last_rtt_ms c \<or>
                last_reserved_bitrate_bps c \<noteq> reserved_bitrate_bps c
             then (c\<lparr>last_bitrate_bps := bitrate,
                     last_fraction_loss := fraction_loss,
                     last_rtt_ms := rtt,
                     last_reserved_bitrate_bps := reserved_bitrate_bps c\<rparr>,
                   [(bitrate, fraction_loss, rtt)])
             else (c, []))"

definition SetStartBitrate ::
  "('e, 'r) collaborators \<Rightarrow> int_t \<Rightarrow> ('e, 'r) BitrateControllerImpl
     \<Rightarrow> ('e, 'r) BitrateControllerImpl \<times> notification list" where
  "SetStartBitrate ops start_bitrate_bps c =
     (c\<lparr>bandwidth_estimation :=
          bwe_SetSendBitrate ops start_bitrate_bps (bandwidth_estimation c)\<rparr>, [])"

definition SetMinMaxBitrate ::
  "('e, 'r) collaborators \<Rightarrow> int_t \<Rightarrow> int_t \<Rightarrow> ('e, 'r) BitrateControllerImpl
     \<Rightarrow> ('e, 'r) BitrateControllerImpl \<times> notification list" where
  "SetMinMaxBitrate ops min_bitrate_bps max_bitrate_bps c =
     (c\<lparr>bandwidth_estimation :=
          bwe_SetMinMaxBitrate ops min_bitrate_bps max_bitrate_bps (bandwidth_estimation c)\<rparr>,
      [])"

definition SetReservedBitrate ::
  "('e, 'r) collaborators \<Rightarrow> uint32_t \<Rightarrow> ('e, 'r) BitrateControllerImpl
     \<Rightarrow> ('e, 'r) BitrateControllerImpl \<times> notification list" where
  "SetReservedBitrate ops reserved c =
     MaybeTriggerOnNetworkChanged ops (c\<lparr>reserved_bitrate_bps := reserved\<rparr>)"

definition OnReceivedEstimatedBitrate ::
  "('e, 'r) collaborators \<Rightarrow> int64_t \<Rightarrow> uint32_t \<Rightarrow> ('e, 'r) BitrateControllerImpl
     \<Rightarrow> ('e, 'r) BitrateControllerImpl \<times> notification list" where
  "OnReceivedEstimatedBitrate ops now bitrate c =
     (case remb_SuppresNewRemb ops now bitrate (remb_suppressor c) of
        (suppress, r) \<Rightarrow>
          if suppress then (c\<lparr>remb_suppressor := r\<rparr>, [])
          else MaybeTriggerOnNetworkChanged ops
                 (c\<lparr>remb_suppressor := r,
                    bandwidth_estimation :=
                      bwe_UpdateReceiverEstimate ops bitrate (bandwidth_estimation c)\<rparr>))"

text \<open>\<open>now\<close> is the value of \<^verbatim>\<open>clock_->TimeInMilliseconds()\<close>.\<close>

definition TimeUntilNextProcess ::
  "int64_t \<Rightarrow> ('e, 'r) BitrateControllerImpl \<Rightarrow> int64_t" where
  "TimeUntilNextProcess now c =
     (let kBitrateControllerUpdateIntervalMs = 25;
          time_since_update_ms = now - last_bitrate_update_ms c
      in max_int64 (kBitrateControllerUpdateIntervalMs - time_since_update_ms) 0)"

text \<open>
  \<^verbatim>\<open>Process\<close> reads the clock three times: in \<^verbatim>\<open>TimeUntilNextProcess\<close> (\<open>now\<close>),
  for \<^verbatim>\<open>UpdateEstimate\<close> (\<open>now_update\<close>) and for \<^verbatim>\<open>last_bitrate_update_ms_\<close>
  (\<open>now_done\<close>). It returns 0 on both paths, so the model returns the state and the
  observer calls only.
\<close>

definition Process ::
  "('e, 'r) collaborators \<Rightarrow> int64_t \<Rightarrow> int64_t \<Rightarrow> int64_t \<Rightarrow> ('e, 'r) BitrateControllerImpl
     \<Rightarrow> ('e, 'r) BitrateControllerImpl \<times> notification list" where
  "Process ops now now_update now_done c =
     (if 0 <s TimeUntilNextProcess now c then (c, [])
      else case MaybeTriggerOnNetworkChanged ops
                  (c\<lparr>bandwidth_estimation :=
                       bwe_UpdateEstimate ops now_update (bandwidth_estimation c)\<rparr>) of
             (c', ns) \<Rightarrow> (c'\<lparr>last_bitrate_update_ms := now_done\<rparr>, ns))"

text \<open>The controller's own \<^verbatim>\<open>OnReceivedRtcpReceiverReport\<close>, called by the observer below.\<close>

definition OnReceivedRtcpReceiverReport ::
  "('e, 'r) collaborators \<Rightarrow> uint8_t \<Rightarrow> int64_t \<Rightarrow> int_t \<Rightarrow> int64_t
     \<Rightarrow> ('e, 'r) BitrateControllerImpl
     \<Rightarrow> ('e, 'r) BitrateControllerImpl \<times> notification list" where
  "OnReceivedRtcpReceiverReport ops fraction_loss rtt number_of_packets now_ms c =
     MaybeTriggerOnNetworkChanged ops
       (c\<lparr>bandwidth_estimation :=
            bwe_UpdateReceiverBlock ops fraction_loss rtt number_of_packets now_ms
              (bandwidth_estimation c)\<rparr>)"

text \<open>
  \<^verbatim>\<open>AvailableBandwidth\<close> is a \<^verbatim>\<open>const\<close> method: it returns \<^verbatim>\<open>false\<close> (\<open>None\<close>) or
  \<^verbatim>\<open>true\<close> with \<^verbatim>\<open>*bandwidth\<close> written (\<open>Some\<close>), beside the state it leaves as it
  found it.
\<close>

definition AvailableBandwidth ::
  "('e, 'r) collaborators \<Rightarrow> ('e, 'r) BitrateControllerImpl
     \<Rightarrow> ('e, 'r) BitrateControllerImpl \<times> uint32_t option" where
  "AvailableBandwidth ops c =
     (case bwe_CurrentEstimate ops (bandwidth_estimation c) of
        (bitrate, fraction_loss, rtt) \<Rightarrow>
          if bitrate \<noteq> 0
          then let bandwidth0 = bitrate - min bitrate (reserved_bitrate_bps c);
                   bandwidth = max bandwidth0 (bwe_GetMinBitrate ops (bandwidth_estimation c))
               in (c, Some bandwidth)
          else (c, None))"

definition SetBitrateSent ::
  "('e, 'r) collaborators \<Rightarrow> int64_t \<Rightarrow> uint32_t \<Rightarrow> ('e, 'r) BitrateControllerImpl
     \<Rightarrow> ('e, 'r) BitrateControllerImpl \<times> notification list" where
  "SetBitrateSent ops now bitrate_sent_bps c =
     (c\<lparr>remb_suppressor :=
          remb_SetBitrateSent ops now bitrate_sent_bps (remb_suppressor c)\<rparr>, [])"

definition SetCodecMode ::
  "('e, 'r) collaborators \<Rightarrow> int64_t \<Rightarrow> VideoCodecMode \<Rightarrow> ('e, 'r) BitrateControllerImpl
     \<Rightarrow> ('e, 'r) BitrateControllerImpl \<times> notification list" where
  "SetCodecMode ops now mode c =
     (c\<lparr>remb_suppressor :=
          remb_SetEnabled ops now (mode = kScreensharing) (remb_suppressor c)\<rparr>, [])"

subsection \<open>The RTCP bandwidth observer\<close>

text \<open>
  The fields of \<^verbatim>\<open>RTCPReportBlock\<close> the observer reads, and the observer's own
  data member, the map from an SSRC to the last extended highest sequence number
  received for it. Its other member, \<^verbatim>\<open>owner_\<close>, points to the controller: the
  observer's methods take and return the controller's state beside their own.
\<close>

record RTCPReportBlock =
  sourceSSRC :: uint32_t
  fractionLost :: uint8_t
  extendedHighSeqNum :: uint32_t

record RtcpBandwidthObserverImpl =
  ssrc_to_last_received_extended_high_seq_num :: "uint32_t \<rightharpoonup> uint32_t"

definition RtcpBandwidthObserverImpl_new :: RtcpBandwidthObserverImpl where
  "RtcpBandwidthObserverImpl_new =
     \<lparr>ssrc_to_last_received_extended_high_seq_num = Map.empty\<rparr>"

text \<open>
  \<^verbatim>\<open>number_of_packets\<close> of one iteration: 0 when the map has no entry for the SSRC,
  otherwise the \<^verbatim>\<open>uint32_t\<close> difference stored in an \<^verbatim>\<open>int\<close>.
\<close>

definition number_of_packets_of ::
  "(uint32_t \<rightharpoonup> uint32_t) \<Rightarrow> RTCPReportBlock \<Rightarrow> int_t" where
  "number_of_packets_of m it =
     (case m (sourceSSRC it) of
        None \<Rightarrow> 0
      | Some last_seq \<Rightarrow> extendedHighSeqNum it - last_seq)"

text \<open>
  The body of the loop over the report blocks, on
  (\<^verbatim>\<open>fraction_lost_aggregate\<close>, \<^verbatim>\<open>total_number_of_packets\<close>, the map).
  \<^verbatim>\<open>fractionLost\<close> is promoted to \<^verbatim>\<open>int\<close> for the product.
\<close>

definition report_block_step ::
  "RTCPReportBlock \<Rightarrow> int_t \<times> int_t \<times> (uint32_t \<rightharpoonup> uint32_t)
     \<Rightarrow> int_t \<times> int_t \<times> (uint32_t \<rightharpoonup> uint32_t)" where
  "report_block_step it acc =
     (case acc of
        (fraction_lost_aggregate, total_number_of_packets, m) \<Rightarrow>
          let number_of_packets = number_of_packets_of m it
          in (fraction_lost_aggregate + number_of_packets * ucast (fractionLost it),
              total_number_of_packets + number_of_packets,
              m(sourceSSRC it \<mapsto> extendedHighSeqNum it)))"

fun report_blocks_loop ::
  "RTCPReportBlock list \<Rightarrow> int_t \<times> int_t \<times> (uint32_t \<rightharpoonup> uint32_t)
     \<Rightarrow> int_t \<times> int_t \<times> (uint32_t \<rightharpoonup> uint32_t)" where
  "report_blocks_loop [] acc = acc"
| "report_blocks_loop (it # rest) acc = report_blocks_loop rest (report_block_step it acc)"

text \<open>
  \<^verbatim>\<open>RtcpBandwidthObserverImpl::OnReceivedRtcpReceiverReport\<close>. The aggregate is
  passed to the controller as a \<^verbatim>\<open>uint8_t\<close> (\<open>ucast\<close>).
\<close>

definition RtcpObserver_OnReceivedRtcpReceiverReport ::
  "('e, 'r) collaborators \<Rightarrow> RTCPReportBlock list \<Rightarrow> int64_t \<Rightarrow> int64_t
     \<Rightarrow> RtcpBandwidthObserverImpl \<times> ('e, 'r) BitrateControllerImpl
     \<Rightarrow> (RtcpBandwidthObserverImpl \<times> ('e, 'r) BitrateControllerImpl) \<times> notification list" where
  "RtcpObserver_OnReceivedRtcpReceiverReport ops report_blocks rtt now_ms w =
     (case w of
        (obs, c) \<Rightarrow>
          if report_blocks = [] then ((obs, c), [])
          else
            case report_blocks_loop report_blocks
                   (0, 0, ssrc_to_last_received_extended_high_seq_num obs) of
              (fraction_lost_sum, total_number_of_packets, m) \<Rightarrow>
                let obs' = obs\<lparr>ssrc_to_last_received_extended_high_seq_num := m\<rparr>;
                    fraction_lost_aggregate =
                      (if total_number_of_packets = 0 then 0
                       else int_div (fraction_lost_sum + int_div total_number_of_packets 2)
                              total_number_of_packets)
                in if 255 <s fraction_lost_aggregate then ((obs', c), [])
                   else
                     case OnReceivedRtcpReceiverReport ops (ucast fraction_lost_aggregate) rtt
                            total_number_of_packets now_ms c of
                       (c', ns) \<Rightarrow> ((obs', c'), ns))"

text \<open>\<^verbatim>\<open>RtcpBandwidthObserverImpl::OnReceivedEstimatedBitrate\<close> calls the controller's.\<close>

definition RtcpObserver_OnReceivedEstimatedBitrate ::
  "('e, 'r) collaborators \<Rightarrow> int64_t \<Rightarrow> uint32_t
     \<Rightarrow> RtcpBandwidthObserverImpl \<times> ('e, 'r) BitrateControllerImpl
     \<Rightarrow> (RtcpBandwidthObserverImpl \<times> ('e, 'r) BitrateControllerImpl) \<times> notification list" where
  "RtcpObserver_OnReceivedEstimatedBitrate ops now bitrate w =
     (case w of
        (obs, c) \<Rightarrow>
          case OnReceivedEstimatedBitrate ops now bitrate c of
            (c', ns) \<Rightarrow> ((obs, c'), ns))"

subsection \<open>The events the controller reacts to\<close>

text \<open>
  The four kinds of event that end in \<^verbatim>\<open>MaybeTriggerOnNetworkChanged\<close>, each with the
  arguments of its entry point and the clock readings it takes: a receiver estimate
  and a receiver report arrive through the observer, the periodic tick is
  \<^verbatim>\<open>Process\<close>, and the reserved bitrate changes through \<^verbatim>\<open>SetReservedBitrate\<close>.
  \<open>handle_event\<close> calls the entry point on the pair of the observer and the
  controller.
\<close>

datatype event =
    EstimatedBitrateArrival int64_t uint32_t
  | ReceiverReportArrival "RTCPReportBlock list" int64_t int64_t
  | PeriodicTick int64_t int64_t int64_t
  | ReservedBitrateChange uint32_t

fun handle_event ::
  "('e, 'r) collaborators \<Rightarrow> event
     \<Rightarrow> RtcpBandwidthObserverImpl \<times> ('e, 'r) BitrateControllerImpl
     \<Rightarrow> (RtcpBandwidthObserverImpl \<times> ('e, 'r) BitrateControllerImpl) \<times> notification list" where
  "handle_event ops (EstimatedBitrateArrival now bitrate) w =
     RtcpObserver_OnReceivedEstimatedBitrate ops now bitrate w"
| "handle_event ops (ReceiverReportArrival report_blocks rtt now_ms) w =
     RtcpObserver_OnReceivedRtcpReceiverReport ops report_blocks rtt now_ms w"
| "handle_event ops (PeriodicTick now now_update now_done) w =
     (case Process ops now now_update now_done (snd w) of
        (c', ns) \<Rightarrow> ((fst w, c'), ns))"
| "handle_event ops (ReservedBitrateChange reserved) w =
     (case SetReservedBitrate ops reserved (snd w) of
        (c', ns) \<Rightarrow> ((fst w, c'), ns))"

text \<open>
  The value of \<^verbatim>\<open>fraction_lost_aggregate\<close> the observer tests against 255, for a
  batch and the map before it.
\<close>

definition fraction_lost_aggregate_of ::
  "(uint32_t \<rightharpoonup> uint32_t) \<Rightarrow> RTCPReportBlock list \<Rightarrow> int_t" where
  "fraction_lost_aggregate_of m report_blocks =
     (case report_blocks_loop report_blocks (0, 0, m) of
        (fraction_lost_sum, total_number_of_packets, m') \<Rightarrow>
          if total_number_of_packets = 0 then 0
          else int_div (fraction_lost_sum + int_div total_number_of_packets 2)
                 total_number_of_packets)"

text \<open>
  The returns that come before \<^verbatim>\<open>MaybeTriggerOnNetworkChanged\<close>: the suppressor
  suppresses the estimate; the batch is empty or its aggregate exceeds 255; the tick
  is early. \<^verbatim>\<open>SetReservedBitrate\<close> has none.
\<close>

fun returns_early ::
  "('e, 'r) collaborators \<Rightarrow> event
     \<Rightarrow> RtcpBandwidthObserverImpl \<times> ('e, 'r) BitrateControllerImpl \<Rightarrow> bool" where
  "returns_early ops (EstimatedBitrateArrival now bitrate) w =
     fst (remb_SuppresNewRemb ops now bitrate (remb_suppressor (snd w)))"
| "returns_early ops (ReceiverReportArrival report_blocks rtt now_ms) w =
     (report_blocks = [] \<or>
      255 <s fraction_lost_aggregate_of
               (ssrc_to_last_received_extended_high_seq_num (fst w)) report_blocks)"
| "returns_early ops (PeriodicTick now now_update now_done) w =
     (0 <s TimeUntilNextProcess now (snd w))"
| "returns_early ops (ReservedBitrateChange reserved) w = False"

subsection \<open>The estimator and the suppressor, as the specification describes them\<close>

text \<open>
  Modelled from the spec: the state of \<^verbatim>\<open>SendSideBandwidthEstimation\<close>, whose source
  is not part of this file. The fields are those of the specification's EstimationState;
  the receiver cap is \<open>None\<close> while unset.
\<close>

record EstimationState =
  send_bitrate :: uint32_t
  min_bitrate :: uint32_t
  max_bitrate :: uint32_t
  receiver_cap :: "uint32_t option"
  last_loss_fraction :: uint8_t
  last_rtt_ms_seen :: int64_t
  last_update_time :: int64_t

text \<open>
  Modelled from the spec: the tuning of \<^verbatim>\<open>SendSideBandwidthEstimation\<close> and of
  \<^verbatim>\<open>RembSuppressor\<close>. The specification gives the roles of these values and not the
  values: the two loss marks, the cut applied above the high mark (from the loss and
  the bitrate), the raise applied below the low mark (from the round-trip time and the
  bitrate), the staleness window with its decay, and the suppressor's margin.
\<close>

record tuning =
  high_water_mark :: uint8_t
  low_water_mark :: uint8_t
  decreased :: "uint8_t \<Rightarrow> uint32_t \<Rightarrow> uint32_t"
  increased :: "int64_t \<Rightarrow> uint32_t \<Rightarrow> uint32_t"
  staleness_window_ms :: int64_t
  decayed :: "uint32_t \<Rightarrow> uint32_t"
  remb_margin :: uint32_t

text \<open>
  Modelled from the spec: the clamp of \<^verbatim>\<open>SendSideBandwidthEstimation\<close>, "all results
  are clamped to [min_bitrate, min(max_bitrate, receiver_cap)]". The floor is applied
  last, as the controller applies it in \<^verbatim>\<open>MaybeTriggerOnNetworkChanged\<close>.
\<close>

definition ceiling_bitrate :: "EstimationState \<Rightarrow> uint32_t" where
  "ceiling_bitrate s =
     (case receiver_cap s of
        None \<Rightarrow> max_bitrate s
      | Some cap \<Rightarrow> min (max_bitrate s) cap)"

definition clamp_result :: "EstimationState \<Rightarrow> uint32_t \<Rightarrow> uint32_t" where
  "clamp_result s b = max (min_bitrate s) (min (ceiling_bitrate s) b)"

text \<open>
  Modelled from the spec: \<^verbatim>\<open>SendSideBandwidthEstimation::SetSendBitrate\<close>, "sets the
  starting/forced bitrate; clamped to [min, max]".
\<close>

definition set_send_bitrate :: "uint32_t \<Rightarrow> EstimationState \<Rightarrow> EstimationState" where
  "set_send_bitrate bps s =
     s\<lparr>send_bitrate := max (min_bitrate s) (min (max_bitrate s) bps)\<rparr>"

text \<open>
  Modelled from the spec: \<^verbatim>\<open>SendSideBandwidthEstimation::SetMinMaxBitrate\<close>, "updates
  bounds". The specification requires \<open>min \<le> max\<close> of the caller and does not say
  what the clamp for \<open>min > max\<close> is; the bounds are stored as given.
\<close>

definition set_min_max_bitrate ::
  "uint32_t \<Rightarrow> uint32_t \<Rightarrow> EstimationState \<Rightarrow> EstimationState" where
  "set_min_max_bitrate lo hi s = s\<lparr>min_bitrate := lo, max_bitrate := hi\<rparr>"

text \<open>
  Modelled from the spec: \<^verbatim>\<open>SendSideBandwidthEstimation::UpdateReceiverEstimate\<close>,
  "records a new receiver-reported ceiling; the effective send bitrate is re-clamped to
  not exceed this ceiling", and a higher ceiling does not raise the bitrate.
\<close>

definition update_receiver_estimate :: "uint32_t \<Rightarrow> EstimationState \<Rightarrow> EstimationState" where
  "update_receiver_estimate cap_bps s =
     s\<lparr>receiver_cap := Some cap_bps, send_bitrate := min (send_bitrate s) cap_bps\<rparr>"

text \<open>
  Modelled from the spec: \<^verbatim>\<open>SendSideBandwidthEstimation::UpdateReceiverBlock\<close>. A
  sample with \<open>packet_count = 0\<close> is ignored; otherwise a loss above the high mark
  cuts the bitrate, a loss below the low mark raises it, a loss between the marks holds
  it, and the result is clamped.
\<close>

definition update_receiver_block ::
  "tuning \<Rightarrow> uint8_t \<Rightarrow> int64_t \<Rightarrow> int_t \<Rightarrow> int64_t \<Rightarrow> EstimationState \<Rightarrow> EstimationState" where
  "update_receiver_block tun fraction_loss rtt_ms packet_count now_ms s =
     (if packet_count = 0 then s
      else
        let candidate =
              (if high_water_mark tun < fraction_loss
               then decreased tun fraction_loss (send_bitrate s)
               else if fraction_loss < low_water_mark tun
               then increased tun rtt_ms (send_bitrate s)
               else send_bitrate s)
        in s\<lparr>send_bitrate := clamp_result s candidate,
             last_loss_fraction := fraction_loss,
             last_rtt_ms_seen := rtt_ms,
             last_update_time := now_ms\<rparr>)"

text \<open>
  Modelled from the spec: \<^verbatim>\<open>SendSideBandwidthEstimation::UpdateEstimate\<close>. When no
  receiver block has been processed for longer than the staleness window the bitrate
  decays, clamped; otherwise nothing changes.
\<close>

definition update_estimate :: "tuning \<Rightarrow> int64_t \<Rightarrow> EstimationState \<Rightarrow> EstimationState" where
  "update_estimate tun now_ms s =
     (if staleness_window_ms tun <s now_ms - last_update_time s
      then s\<lparr>send_bitrate := clamp_result s (decayed tun (send_bitrate s))\<rparr>
      else s)"

text \<open>
  Modelled from the spec: \<^verbatim>\<open>SendSideBandwidthEstimation::CurrentEstimate\<close>, the
  read-only snapshot (bitrate, fraction_loss, rtt).
\<close>

definition current_estimate :: "EstimationState \<Rightarrow> uint32_t \<times> uint8_t \<times> int64_t" where
  "current_estimate s = (send_bitrate s, last_loss_fraction s, last_rtt_ms_seen s)"

text \<open>
  Modelled from the spec: the state of \<^verbatim>\<open>RembSuppressor\<close>, whose source is not part
  of this file: whether it is enabled and the bitrate last sent.
\<close>

record SuppressorState =
  enabled :: bool
  last_bitrate_sent :: uint32_t

text \<open>
  Modelled from the spec: \<^verbatim>\<open>RembSuppressor::SuppresNewRemb\<close>. Disabled, it lets every
  sample pass. Enabled, it suppresses a sample that is an increase over the bitrate last
  sent by no more than the margin; a decrease always passes. Its own state is unchanged.
\<close>

definition suppress_new_remb :: "tuning \<Rightarrow> uint32_t \<Rightarrow> SuppressorState \<Rightarrow> bool \<times> SuppressorState" where
  "suppress_new_remb tun bitrate r =
     (enabled r \<and> last_bitrate_sent r < bitrate \<and>
      bitrate - last_bitrate_sent r \<le> remb_margin tun, r)"

text \<open>Modelled from the spec: \<^verbatim>\<open>RembSuppressor::SetBitrateSent\<close> and \<^verbatim>\<open>SetEnabled\<close>.\<close>

definition set_bitrate_sent :: "uint32_t \<Rightarrow> SuppressorState \<Rightarrow> SuppressorState" where
  "set_bitrate_sent bps r = r\<lparr>last_bitrate_sent := bps\<rparr>"

definition set_enabled :: "bool \<Rightarrow> SuppressorState \<Rightarrow> SuppressorState" where
  "set_enabled e r = r\<lparr>enabled := e\<rparr>"

text \<open>
  Modelled from the spec: the collaborators of the controller, \<^verbatim>\<open>SendSideBandwidthEstimation\<close>
  and \<^verbatim>\<open>RembSuppressor\<close>, put together from the definitions above. The theorems about
  the controller hold for every value of type \<open>collaborators\<close>; this one is the
  instance on which they are evaluated.
\<close>

definition spec_collaborators :: "tuning \<Rightarrow> (EstimationState, SuppressorState) collaborators" where
  "spec_collaborators tun =
     \<lparr>bwe_SetSendBitrate = set_send_bitrate,
      bwe_SetMinMaxBitrate = set_min_max_bitrate,
      bwe_UpdateReceiverEstimate = update_receiver_estimate,
      bwe_UpdateReceiverBlock = update_receiver_block tun,
      bwe_UpdateEstimate = update_estimate tun,
      bwe_CurrentEstimate = current_estimate,
      bwe_GetMinBitrate = min_bitrate,
      remb_SuppresNewRemb = (\<lambda>now. suppress_new_remb tun),
      remb_SetBitrateSent = (\<lambda>now. set_bitrate_sent),
      remb_SetEnabled = (\<lambda>now. set_enabled)\<rparr>"

text \<open>
  Modelled from the spec: one tuning, for evaluation only (the specification fixes no
  values): marks at 26 and 5 of 255, a cut of \<open>loss/512\<close> of the bitrate, a raise of
  8 percent, a decay of one eighth after 5 seconds without a report, and a margin of
  20000 bps.
\<close>

definition example_tuning :: tuning where
  "example_tuning =
     \<lparr>high_water_mark = 26,
      low_water_mark = 5,
      decreased = (\<lambda>loss b. b - (b div 512) * ucast loss),
      increased = (\<lambda>rtt b. b + b div 12),
      staleness_window_ms = 5000,
      decayed = (\<lambda>b. b - b div 8),
      remb_margin = 20000\<rparr>"

text \<open>
  Modelled from the spec: a new estimator (bitrate zero, no cap, the widest bounds) and
  a new suppressor (disabled), and from them a new controller and observer.
\<close>

definition EstimationState_new :: EstimationState where
  "EstimationState_new =
     \<lparr>send_bitrate = 0, min_bitrate = 0, max_bitrate = - 1, receiver_cap = None,
      last_loss_fraction = 0, last_rtt_ms_seen = 0, last_update_time = 0\<rparr>"

definition SuppressorState_new :: SuppressorState where
  "SuppressorState_new = \<lparr>enabled = False, last_bitrate_sent = 0\<rparr>"

definition example_ops :: "(EstimationState, SuppressorState) collaborators" where
  "example_ops = spec_collaborators example_tuning"

definition example_controller :: "(EstimationState, SuppressorState) BitrateControllerImpl" where
  "example_controller = BitrateControllerImpl_new 1000 EstimationState_new SuppressorState_new"

subsection \<open>Sequences of estimator updates\<close>

text \<open>
  Modelled from the spec: the five update entry points of
  \<^verbatim>\<open>SendSideBandwidthEstimation\<close> as one type, with the function that applies one
  update and the function that applies a sequence from left to right.
\<close>

datatype engine_update =
    Set_send_bitrate uint32_t
  | Set_min_max_bitrate uint32_t uint32_t
  | Update_receiver_estimate uint32_t
  | Update_receiver_block uint8_t int64_t int_t int64_t
  | Update_estimate int64_t

fun apply_update :: "tuning \<Rightarrow> engine_update \<Rightarrow> EstimationState \<Rightarrow> EstimationState" where
  "apply_update tun (Set_send_bitrate bps) s = set_send_bitrate bps s"
| "apply_update tun (Set_min_max_bitrate lo hi) s = set_min_max_bitrate lo hi s"
| "apply_update tun (Update_receiver_estimate cap_bps) s = update_receiver_estimate cap_bps s"
| "apply_update tun (Update_receiver_block fraction_loss rtt_ms packet_count now_ms) s =
     update_receiver_block tun fraction_loss rtt_ms packet_count now_ms s"
| "apply_update tun (Update_estimate now_ms) s = update_estimate tun now_ms s"

fun run_updates :: "tuning \<Rightarrow> engine_update list \<Rightarrow> EstimationState \<Rightarrow> EstimationState" where
  "run_updates tun [] s = s"
| "run_updates tun (u # us) s = run_updates tun us (apply_update tun u s)"

text \<open>
  The specification's invariant of the estimator's state, on the bitrate
  \<open>current_estimate\<close> returns: it is within the bounds, and not above the receiver
  cap when one is set.
\<close>

definition within_bounds :: "EstimationState \<Rightarrow> bool" where
  "within_bounds s =
     (min_bitrate s \<le> fst (current_estimate s) \<and>
      fst (current_estimate s) \<le> max_bitrate s \<and>
      (case receiver_cap s of
         None \<Rightarrow> True
       | Some cap \<Rightarrow> fst (current_estimate s) \<le> cap))"

text \<open>
  The arguments of an update agree with the state it is applied to: new bounds enclose
  the current bitrate, a new receiver cap is not below the minimum, and a forced
  bitrate is not above the receiver cap. And a sequence of updates in which every
  update agrees with the state it meets.
\<close>

fun agrees :: "EstimationState \<Rightarrow> engine_update \<Rightarrow> bool" where
  "agrees s (Set_send_bitrate bps) =
     (case receiver_cap s of None \<Rightarrow> True | Some cap \<Rightarrow> bps \<le> cap)"
| "agrees s (Set_min_max_bitrate lo hi) = (lo \<le> send_bitrate s \<and> send_bitrate s \<le> hi)"
| "agrees s (Update_receiver_estimate cap_bps) = (min_bitrate s \<le> cap_bps)"
| "agrees s (Update_receiver_block fraction_loss rtt_ms packet_count now_ms) = True"
| "agrees s (Update_estimate now_ms) = True"

fun all_agree :: "tuning \<Rightarrow> engine_update list \<Rightarrow> EstimationState \<Rightarrow> bool" where
  "all_agree tun [] s = True"
| "all_agree tun (u # us) s = (agrees s u \<and> all_agree tun us (apply_update tun u s))"

subsection \<open>The externally visible snapshot\<close>

text \<open>
  The specification's formula for the exposed bitrate, on natural numbers: the raw
  estimate less the reserved bitrate (never below zero), floored at the estimator's
  minimum.
\<close>

definition exposed_bitrate_spec :: "nat \<Rightarrow> nat \<Rightarrow> nat \<Rightarrow> nat" where
  "exposed_bitrate_spec raw reserved floor_bps = max (raw - min raw reserved) floor_bps"

text \<open>
  The specification's ControllerSnapshot (bitrate, fraction_loss, rtt, reserved_bitrate)
  of a controller state, and the tuple the controller keeps of its last notification.
\<close>

definition snapshot ::
  "('e, 'r) collaborators \<Rightarrow> ('e, 'r) BitrateControllerImpl
     \<Rightarrow> uint32_t \<times> uint8_t \<times> int64_t \<times> uint32_t" where
  "snapshot ops c =
     (case bwe_CurrentEstimate ops (bandwidth_estimation c) of
        (raw, fraction_loss, rtt) \<Rightarrow>
          (max (raw - min raw (reserved_bitrate_bps c))
             (bwe_GetMinBitrate ops (bandwidth_estimation c)),
           fraction_loss, rtt, reserved_bitrate_bps c))"

definition last_notified ::
  "('e, 'r) BitrateControllerImpl \<Rightarrow> uint32_t \<times> uint8_t \<times> int64_t \<times> uint32_t" where
  "last_notified c =
     (last_bitrate_bps c, last_fraction_loss c, last_rtt_ms c, last_reserved_bitrate_bps c)"

text \<open>
  The specification's rule of change detection: the observer is called once, with the
  bitrate, loss and round-trip time of the snapshot, when the snapshot of the state
  after the event differs from the tuple last notified before it, and not at all when
  they are equal.
\<close>

definition expected_notifications ::
  "('e, 'r) collaborators \<Rightarrow> ('e, 'r) BitrateControllerImpl \<Rightarrow> ('e, 'r) BitrateControllerImpl
     \<Rightarrow> notification list" where
  "expected_notifications ops c_before c_after =
     (if snapshot ops c_after = last_notified c_before then []
      else case snapshot ops c_after of
             (bitrate, fraction_loss, rtt, reserved) \<Rightarrow> [(bitrate, fraction_loss, rtt)])"

subsection \<open>Controller states for evaluation\<close>

text \<open>
  A controller built at time 1000, then given bounds and a start bitrate; the same with
  460000 bps reserved; and the same in screen-sharing mode after 200000 bps were sent.
\<close>

definition configured_controller :: "(EstimationState, SuppressorState) BitrateControllerImpl" where
  "configured_controller =
     fst (SetStartBitrate example_ops 500000
            (fst (SetMinMaxBitrate example_ops 50000 2000000 example_controller)))"

definition reserving_controller :: "(EstimationState, SuppressorState) BitrateControllerImpl" where
  "reserving_controller = configured_controller\<lparr>reserved_bitrate_bps := 460000\<rparr>"

definition screensharing_controller ::
  "(EstimationState, SuppressorState) BitrateControllerImpl" where
  "screensharing_controller =
     fst (SetBitrateSent example_ops 1000 200000
            (fst (SetCodecMode example_ops 1000 kScreensharing configured_controller)))"

subsection \<open>The sums of a batch of report blocks\<close>

text \<open>
  The \<^verbatim>\<open>number_of_packets\<close> of each iteration of the loop, in order: a block is
  counted against the map as the blocks before it have left it. And the map after the
  loop.
\<close>

fun packet_counts :: "(uint32_t \<rightharpoonup> uint32_t) \<Rightarrow> RTCPReportBlock list \<Rightarrow> int_t list" where
  "packet_counts m [] = []"
| "packet_counts m (it # rest) =
     number_of_packets_of m it
       # packet_counts (m(sourceSSRC it \<mapsto> extendedHighSeqNum it)) rest"

fun watermarks_after ::
  "(uint32_t \<rightharpoonup> uint32_t) \<Rightarrow> RTCPReportBlock list \<Rightarrow> (uint32_t \<rightharpoonup> uint32_t)" where
  "watermarks_after m [] = m"
| "watermarks_after m (it # rest) =
     watermarks_after (m(sourceSSRC it \<mapsto> extendedHighSeqNum it)) rest"

text \<open>
  The specification's two sums as integers, the counts read as \<^verbatim>\<open>int\<close>s and the loss
  fractions as \<^verbatim>\<open>uint8_t\<close>s: the sum of count times loss fraction, and the sum of the
  counts.
\<close>

fun weighted_loss_sum :: "(uint32_t \<rightharpoonup> uint32_t) \<Rightarrow> RTCPReportBlock list \<Rightarrow> int" where
  "weighted_loss_sum m [] = 0"
| "weighted_loss_sum m (it # rest) =
     sint (number_of_packets_of m it) * uint (fractionLost it)
       + weighted_loss_sum (m(sourceSSRC it \<mapsto> extendedHighSeqNum it)) rest"

fun weight_sum :: "(uint32_t \<rightharpoonup> uint32_t) \<Rightarrow> RTCPReportBlock list \<Rightarrow> int" where
  "weight_sum m [] = 0"
| "weight_sum m (it # rest) =
     sint (number_of_packets_of m it)
       + weight_sum (m(sourceSSRC it \<mapsto> extendedHighSeqNum it)) rest"

text \<open>
  The specification's aggregate, \<open>round (weighted loss / weights)\<close>, a half rounded
  up (\<open>round x\<close> is \<open>\<lfloor>x + 1/2\<rfloor>\<close>).
\<close>

definition aggregate_loss_spec :: "int \<Rightarrow> int \<Rightarrow> int" where
  "aggregate_loss_spec weighted weights = round (real_of_int weighted / real_of_int weights)"

subsection \<open>Observer states and batches for evaluation\<close>

text \<open>
  An observer that has seen sequence number 100 for SSRC 1 and for SSRC 2; a block for
  SSRC 1 that is ten packets older, with all packets lost; a block for SSRC 2 that is
  twenty packets newer, with no loss; the first block ever of SSRC 7. And the
  specification's example: two flows with 100 and 50 new packets and loss fractions 10
  and 40.
\<close>

definition observer_at_100 :: RtcpBandwidthObserverImpl where
  "observer_at_100 =
     \<lparr>ssrc_to_last_received_extended_high_seq_num = [1 \<mapsto> 100, 2 \<mapsto> 100]\<rparr>"

definition stale_block :: RTCPReportBlock where
  "stale_block = \<lparr>sourceSSRC = 1, fractionLost = 255, extendedHighSeqNum = 90\<rparr>"

definition fresh_block :: RTCPReportBlock where
  "fresh_block = \<lparr>sourceSSRC = 2, fractionLost = 0, extendedHighSeqNum = 120\<rparr>"

definition first_block :: RTCPReportBlock where
  "first_block = \<lparr>sourceSSRC = 7, fractionLost = 30, extendedHighSeqNum = 5000\<rparr>"

definition two_flows :: "RTCPReportBlock list" where
  "two_flows =
     [\<lparr>sourceSSRC = 1, fractionLost = 10, extendedHighSeqNum = 200\<rparr>,
      \<lparr>sourceSSRC = 2, fractionLost = 40, extendedHighSeqNum = 150\<rparr>]"

subsection \<open>Estimator states and updates for evaluation\<close>

text \<open>
  Modelled from the spec: the estimator after bounds of 50000 and 2000000 bps and a
  start bitrate of 500000 bps; and a run of feedback: a receiver cap of 300000 bps, a
  report with heavy loss, a report without loss, and a tick six seconds after the
  last report.
\<close>

definition configured_estimator :: EstimationState where
  "configured_estimator =
     run_updates example_tuning
       [Set_min_max_bitrate 50000 2000000, Set_send_bitrate 500000] EstimationState_new"

definition feedback_updates :: "engine_update list" where
  "feedback_updates =
     [Update_receiver_estimate 300000,
      Update_receiver_block 250 50 100 2000,
      Update_receiver_block 0 50 100 3000,
      Update_estimate 9000]"

section \<open>Properties\<close>

subsection \<open>The exposed bitrate\<close>

lemma unat_exposed:
  fixes b r m :: "'a::len word"
  shows "unat (max (b - min b r) m) = exposed_bitrate_spec (unat b) (unat r) (unat m)"
proof -
  have "min b r \<le> b" by simp
  then have "unat (b - min b r) = unat b - unat (min b r)" by (rule unat_sub)
  moreover have "unat (min b r) = min (unat b) (unat r)"
    by (simp add: min_def word_le_nat_alt)
  moreover have "unat (max (b - min b r) m) = max (unat (b - min b r)) (unat m)"
    by (simp add: max_def word_le_nat_alt)
  ultimately show ?thesis by (simp add: exposed_bitrate_spec_def)
qed

lemma MaybeTrigger_last_bitrate:
  "last_bitrate_bps (fst (MaybeTriggerOnNetworkChanged ops c)) =
     max (fst (bwe_CurrentEstimate ops (bandwidth_estimation c))
            - min (fst (bwe_CurrentEstimate ops (bandwidth_estimation c))) (reserved_bitrate_bps c))
         (bwe_GetMinBitrate ops (bandwidth_estimation c))"
  by (auto simp add: MaybeTriggerOnNetworkChanged_def Let_def split: prod.splits)

lemma MaybeTrigger_notifications:
  "n \<in> set (snd (MaybeTriggerOnNetworkChanged ops c)) \<Longrightarrow>
   fst n = max (fst (bwe_CurrentEstimate ops (bandwidth_estimation c))
            - min (fst (bwe_CurrentEstimate ops (bandwidth_estimation c))) (reserved_bitrate_bps c))
         (bwe_GetMinBitrate ops (bandwidth_estimation c))"
  by (auto simp add: MaybeTriggerOnNetworkChanged_def Let_def split: prod.splits if_splits)

lemma AvailableBandwidth_value:
  "snd (AvailableBandwidth ops c) =
     (if fst (bwe_CurrentEstimate ops (bandwidth_estimation c)) = 0 then None
      else Some (max (fst (bwe_CurrentEstimate ops (bandwidth_estimation c))
            - min (fst (bwe_CurrentEstimate ops (bandwidth_estimation c))) (reserved_bitrate_bps c))
         (bwe_GetMinBitrate ops (bandwidth_estimation c))))"
  by (auto simp add: AvailableBandwidth_def Let_def split: prod.splits)

lemma AvailableBandwidth_state: "fst (AvailableBandwidth ops c) = c"
  by (auto simp add: AvailableBandwidth_def Let_def split: prod.splits)

text \<open>
  Claim C7. Wherever the controller computes the exposed bitrate, the value is the
  specification's formula \<open>max (raw - min raw reserved) floor\<close> on the unsigned
  readings, with no wrap-around: it is the bitrate \<^verbatim>\<open>MaybeTriggerOnNetworkChanged\<close>
  compares and leaves in \<^verbatim>\<open>last_bitrate_bps_\<close>, the bitrate of every notification,
  and the bandwidth \<^verbatim>\<open>AvailableBandwidth\<close> writes when it returns true. None of the
  three is below the estimator's minimum, for every raw estimate and reserved bitrate.
\<close>

theorem exposed_bitrate_is_floored_difference:
  "(let raw = fst (bwe_CurrentEstimate ops (bandwidth_estimation c));
        floor_bps = bwe_GetMinBitrate ops (bandwidth_estimation c);
        exposed = exposed_bitrate_spec (unat raw) (unat (reserved_bitrate_bps c)) (unat floor_bps)
    in unat (last_bitrate_bps (fst (MaybeTriggerOnNetworkChanged ops c))) = exposed \<and>
       floor_bps \<le> last_bitrate_bps (fst (MaybeTriggerOnNetworkChanged ops c)) \<and>
       (\<forall>n \<in> set (snd (MaybeTriggerOnNetworkChanged ops c)).
          unat (fst n) = exposed \<and> floor_bps \<le> fst n) \<and>
       (\<forall>bandwidth. snd (AvailableBandwidth ops c) = Some bandwidth \<longrightarrow>
          unat bandwidth = exposed \<and> floor_bps \<le> bandwidth))"
  unfolding Let_def
proof (intro conjI ballI allI impI)
  show "unat (last_bitrate_bps (fst (MaybeTriggerOnNetworkChanged ops c))) =
        exposed_bitrate_spec (unat (fst (bwe_CurrentEstimate ops (bandwidth_estimation c))))
          (unat (reserved_bitrate_bps c)) (unat (bwe_GetMinBitrate ops (bandwidth_estimation c)))"
    by (simp only: MaybeTrigger_last_bitrate unat_exposed)
  show "bwe_GetMinBitrate ops (bandwidth_estimation c)
          \<le> last_bitrate_bps (fst (MaybeTriggerOnNetworkChanged ops c))"
    by (simp add: MaybeTrigger_last_bitrate)
next
  fix n assume "n \<in> set (snd (MaybeTriggerOnNetworkChanged ops c))"
  then have n: "fst n = max (fst (bwe_CurrentEstimate ops (bandwidth_estimation c))
            - min (fst (bwe_CurrentEstimate ops (bandwidth_estimation c))) (reserved_bitrate_bps c))
         (bwe_GetMinBitrate ops (bandwidth_estimation c))"
    by (rule MaybeTrigger_notifications)
  show "unat (fst n) =
        exposed_bitrate_spec (unat (fst (bwe_CurrentEstimate ops (bandwidth_estimation c))))
          (unat (reserved_bitrate_bps c)) (unat (bwe_GetMinBitrate ops (bandwidth_estimation c)))"
    by (simp only: n unat_exposed)
  show "bwe_GetMinBitrate ops (bandwidth_estimation c) \<le> fst n"
    by (simp add: n)
next
  fix bandwidth assume "snd (AvailableBandwidth ops c) = Some bandwidth"
  then have b: "bandwidth = max (fst (bwe_CurrentEstimate ops (bandwidth_estimation c))
            - min (fst (bwe_CurrentEstimate ops (bandwidth_estimation c))) (reserved_bitrate_bps c))
         (bwe_GetMinBitrate ops (bandwidth_estimation c))"
    by (simp add: AvailableBandwidth_value split: if_splits)
  show "unat bandwidth =
        exposed_bitrate_spec (unat (fst (bwe_CurrentEstimate ops (bandwidth_estimation c))))
          (unat (reserved_bitrate_bps c)) (unat (bwe_GetMinBitrate ops (bandwidth_estimation c)))"
    by (simp only: b unat_exposed)
  show "bwe_GetMinBitrate ops (bandwidth_estimation c) \<le> bandwidth"
    by (simp add: b)
qed

text \<open>
  With 500000 bps estimated, 460000 bps reserved and a minimum of 50000 bps, the
  difference of 40000 bps is raised to the minimum in the notification and in
  \<^verbatim>\<open>AvailableBandwidth\<close>.
\<close>

theorem exposed_bitrate_is_floored_difference_witness:
  "snd (MaybeTriggerOnNetworkChanged example_ops reserving_controller) = [(50000, 0, 0)] \<and>
   snd (AvailableBandwidth example_ops reserving_controller) = Some 50000 \<and>
   exposed_bitrate_spec 500000 460000 50000 = 50000 \<and>
   unat (last_bitrate_bps (fst (MaybeTriggerOnNetworkChanged example_ops reserving_controller)))
     = 50000"
proof -
  have n: "snd (MaybeTriggerOnNetworkChanged example_ops reserving_controller) = [(50000, 0, 0)]"
    by code_simp
  have a: "snd (AvailableBandwidth example_ops reserving_controller) = Some 50000"
    by code_simp
  have e: "exposed_bitrate_spec 500000 460000 50000 = 50000"
    by (simp add: exposed_bitrate_spec_def)
  have raw: "fst (bwe_CurrentEstimate example_ops (bandwidth_estimation reserving_controller))
               = 500000"
    by code_simp
  have res: "reserved_bitrate_bps reserving_controller = 460000"
    by code_simp
  have fl: "bwe_GetMinBitrate example_ops (bandwidth_estimation reserving_controller) = 50000"
    by code_simp
  from exposed_bitrate_is_floored_difference [of example_ops reserving_controller]
  have "unat (last_bitrate_bps (fst (MaybeTriggerOnNetworkChanged example_ops reserving_controller)))
          = 50000"
    unfolding Let_def raw res fl by (simp add: e)
  with n a e show ?thesis by simp
qed

subsection \<open>Reading the available bandwidth\<close>

text \<open>
  Claim C8. \<^verbatim>\<open>AvailableBandwidth\<close> returns false (\<open>None\<close>) exactly when the bitrate of
  the estimator's current estimate is zero; when it is not zero it returns the exposed
  bitrate, the raw estimate less the reserved bitrate floored at the estimator's minimum;
  and on both paths the controller, and the estimator and suppressor inside it, are
  as before the call.
\<close>

theorem AvailableBandwidth_none_iff_zero_estimate:
  "(let raw = fst (bwe_CurrentEstimate ops (bandwidth_estimation c))
    in (snd (AvailableBandwidth ops c) = None) = (raw = 0) \<and>
       (raw \<noteq> 0 \<longrightarrow>
          snd (AvailableBandwidth ops c) =
            Some (max (raw - min raw (reserved_bitrate_bps c))
                    (bwe_GetMinBitrate ops (bandwidth_estimation c))) \<and>
          map_option unat (snd (AvailableBandwidth ops c)) =
            Some (exposed_bitrate_spec (unat raw) (unat (reserved_bitrate_bps c))
                    (unat (bwe_GetMinBitrate ops (bandwidth_estimation c))))) \<and>
       fst (AvailableBandwidth ops c) = c)"
  by (simp add: Let_def AvailableBandwidth_value AvailableBandwidth_state unat_exposed)

text \<open>
  A new controller has no estimate; once bounds and a start bitrate of 500000 bps are
  set, the available bandwidth is 500000 bps, and 50000 bps when 460000 bps are reserved.
\<close>

theorem AvailableBandwidth_none_iff_zero_estimate_witness:
  "fst (bwe_CurrentEstimate example_ops (bandwidth_estimation example_controller)) = 0 \<and>
   AvailableBandwidth example_ops example_controller = (example_controller, None) \<and>
   fst (bwe_CurrentEstimate example_ops (bandwidth_estimation reserving_controller)) = 500000 \<and>
   AvailableBandwidth example_ops reserving_controller = (reserving_controller, Some 50000) \<and>
   AvailableBandwidth example_ops configured_controller = (configured_controller, Some 500000)"
proof -
  have z: "fst (bwe_CurrentEstimate example_ops (bandwidth_estimation example_controller)) = 0"
    by code_simp
  have nz: "fst (bwe_CurrentEstimate example_ops (bandwidth_estimation reserving_controller))
              = 500000"
    by code_simp
  have v1: "snd (AvailableBandwidth example_ops reserving_controller) = Some 50000"
    by code_simp
  have v2: "snd (AvailableBandwidth example_ops configured_controller) = Some 500000"
    by code_simp
  from AvailableBandwidth_none_iff_zero_estimate [of example_ops example_controller] z
  have a0: "AvailableBandwidth example_ops example_controller = (example_controller, None)"
    by (simp add: Let_def prod_eq_iff)
  from AvailableBandwidth_none_iff_zero_estimate [of example_ops reserving_controller] v1
  have a1: "AvailableBandwidth example_ops reserving_controller
              = (reserving_controller, Some 50000)"
    by (simp add: Let_def prod_eq_iff)
  from AvailableBandwidth_none_iff_zero_estimate [of example_ops configured_controller] v2
  have a2: "AvailableBandwidth example_ops configured_controller
              = (configured_controller, Some 500000)"
    by (simp add: Let_def prod_eq_iff)
  from z nz a0 a1 a2 show ?thesis by simp
qed

subsection \<open>The periodic tick\<close>

text \<open>
  The time until the next tick is positive exactly when fewer than 25 ms have passed
  since the last one, and it stays positive while the clock advances by less than it.
\<close>

lemma TimeUntilNextProcess_positive:
  "0 <s TimeUntilNextProcess now c \<longleftrightarrow> 0 <s 25 - (now - last_bitrate_update_ms c)"
  by (auto simp add: TimeUntilNextProcess_def max_int64_def Let_def word_sless_alt)

lemma TimeUntilNextProcess_later:
  assumes pos: "0 <s TimeUntilNextProcess t0 c"
      and d0: "0 \<le>s now - t0"
      and d1: "now - t0 <s TimeUntilNextProcess t0 c"
  shows "0 <s TimeUntilNextProcess now c"
proof -
  define x where "x = 25 - (t0 - last_bitrate_update_ms c)"
  define d where "d = now - t0"
  from pos have xpos: "0 <s x"
    by (simp add: TimeUntilNextProcess_positive x_def)
  then have r: "TimeUntilNextProcess t0 c = x"
    by (auto simp add: TimeUntilNextProcess_def max_int64_def Let_def x_def word_sless_alt)
  have sx: "0 < sint x" using xpos by (simp add: word_sless_alt)
  have sd0: "0 \<le> sint d" using d0 by (simp add: word_sle_eq d_def)
  have sd1: "sint d < sint x" using d1 by (simp add: word_sless_alt d_def r)
  have "sint x < 2 ^ (LENGTH(64) - 1)" by (rule sint_lt)
  then have up: "sint x - sint d < 2 ^ 63" using sd0 by simp
  have lo: "- (2 ^ 63) \<le> sint x - sint d" using sd1 by simp
  have "sint (x - d) = signed_take_bit (LENGTH(64) - 1) (sint x - sint d)"
    by (rule sint_word_diff)
  also have "\<dots> = sint x - sint d"
    using lo up by (simp add: signed_take_bit_int_eq_self)
  finally have "0 < sint (x - d)" using sd1 by simp
  then have "0 <s x - d" by (simp add: word_sless_alt)
  moreover have "25 - (now - last_bitrate_update_ms c) = x - d"
    by (simp add: x_def d_def)
  ultimately have "0 <s 25 - (now - last_bitrate_update_ms c)" by simp
  then show ?thesis
    by (simp only: TimeUntilNextProcess_positive)
qed

text \<open>
  Claim C9. If \<^verbatim>\<open>TimeUntilNextProcess\<close>, called when the clock shows \<open>t0\<close>, returns
  a value greater than zero, then \<^verbatim>\<open>Process\<close>, entered when the clock shows \<open>now\<close>
  with less than the returned time gone by since \<open>t0\<close> (\<open>now = t0\<close> for the call
  that follows immediately), does nothing: the controller with its estimator and
  suppressor is unchanged and the observer is not called. The other two clock
  readings of \<^verbatim>\<open>Process\<close> are not reached.
\<close>

theorem Process_before_due_is_noop:
  assumes "0 <s TimeUntilNextProcess t0 c"
  shows "Process ops t0 now_update now_done c = (c, []) \<and>
         (0 \<le>s now - t0 \<and> now - t0 <s TimeUntilNextProcess t0 c \<longrightarrow>
            Process ops now now_update now_done c = (c, []))"
proof (intro conjI impI)
  from assms show "Process ops t0 now_update now_done c = (c, [])"
    by (simp add: Process_def)
next
  assume "0 \<le>s now - t0 \<and> now - t0 <s TimeUntilNextProcess t0 c"
  with assms have "0 <s TimeUntilNextProcess now c"
    by (simp add: TimeUntilNextProcess_later)
  then show "Process ops now now_update now_done c = (c, [])"
    by (simp add: Process_def)
qed

text \<open>
  Ten milliseconds after the controller was built there are 15 ms left, and
  \<^verbatim>\<open>Process\<close> changes nothing at that time nor 14 ms later, although a start bitrate
  was set and never notified.
\<close>

theorem Process_before_due_is_noop_witness:
  "TimeUntilNextProcess 1010 configured_controller = 15 \<and>
   Process example_ops 1010 1011 1012 configured_controller = (configured_controller, []) \<and>
   Process example_ops 1024 1024 1024 configured_controller = (configured_controller, [])"
proof -
  have t: "TimeUntilNextProcess 1010 configured_controller = 15"
    by code_simp
  have h: "0 <s TimeUntilNextProcess 1010 configured_controller"
    by code_simp
  have b: "(0 :: int64_t) \<le>s 1024 - 1010 \<and>
           (1024 :: int64_t) - 1010 <s TimeUntilNextProcess 1010 configured_controller"
    by code_simp
  note p = Process_before_due_is_noop [OF h]
  from p [of example_ops 1011 1012, THEN conjunct1]
  have p1: "Process example_ops 1010 1011 1012 configured_controller
              = (configured_controller, [])" .
  from p [of example_ops 1024 1024 1024, THEN conjunct2, rule_format, OF b]
  have p2: "Process example_ops 1024 1024 1024 configured_controller
              = (configured_controller, [])" .
  from t p1 p2 show ?thesis by (intro conjI)
qed

subsection \<open>A suppressed receiver estimate\<close>

text \<open>
  Claim C10. When \<^verbatim>\<open>SuppresNewRemb\<close> returns true for an incoming estimate,
  \<^verbatim>\<open>OnReceivedEstimatedBitrate\<close> returns at once: \<^verbatim>\<open>UpdateReceiverEstimate\<close> is not
  called (the estimator is unchanged), the observer is not called, and the controller
  differs from the one before the call in the suppressor's state at most.
\<close>

theorem suppressed_estimate_changes_suppressor_only:
  "fst (remb_SuppresNewRemb ops now bitrate (remb_suppressor c)) \<Longrightarrow>
   OnReceivedEstimatedBitrate ops now bitrate c =
     (c\<lparr>remb_suppressor := snd (remb_SuppresNewRemb ops now bitrate (remb_suppressor c))\<rparr>, [])
   \<and> bandwidth_estimation (fst (OnReceivedEstimatedBitrate ops now bitrate c))
       = bandwidth_estimation c
   \<and> last_notified (fst (OnReceivedEstimatedBitrate ops now bitrate c)) = last_notified c
   \<and> snd (OnReceivedEstimatedBitrate ops now bitrate c) = []"
proof -
  assume h: "fst (remb_SuppresNewRemb ops now bitrate (remb_suppressor c))"
  obtain suppress r where
    sr: "remb_SuppresNewRemb ops now bitrate (remb_suppressor c) = (suppress, r)"
    by (cases "remb_SuppresNewRemb ops now bitrate (remb_suppressor c)")
  with h have "suppress" by simp
  with sr show ?thesis
    by (simp add: OnReceivedEstimatedBitrate_def last_notified_def)
qed

text \<open>
  In screen-sharing mode with 200000 bps last sent, an estimate of 210000 bps is
  suppressed: the controller is unchanged and the observer is not called.
\<close>

theorem suppressed_estimate_changes_suppressor_only_witness:
  "fst (remb_SuppresNewRemb example_ops 1030 210000 (remb_suppressor screensharing_controller)) \<and>
   OnReceivedEstimatedBitrate example_ops 1030 210000 screensharing_controller
     = (screensharing_controller, []) \<and>
   receiver_cap (bandwidth_estimation
     (fst (OnReceivedEstimatedBitrate example_ops 1030 210000 screensharing_controller))) = None"
proof -
  have h: "fst (remb_SuppresNewRemb example_ops 1030 210000
                  (remb_suppressor screensharing_controller))"
    by code_simp
  have r: "screensharing_controller
             \<lparr>remb_suppressor := snd (remb_SuppresNewRemb example_ops 1030 210000
                  (remb_suppressor screensharing_controller))\<rparr> = screensharing_controller"
    by code_simp
  have e: "receiver_cap (bandwidth_estimation screensharing_controller) = None"
    by code_simp
  from suppressed_estimate_changes_suppressor_only [OF h] h r e
  show ?thesis by simp
qed

subsection \<open>The sums the observer's loop computes\<close>

text \<open>
  Helper facts: \<^verbatim>\<open>int\<close> values in range survive the word, the truncating quotient of
  non-negative values is the floor quotient, \<open>(a + t div 2) div t\<close> is \<open>a / t\<close>
  rounded half up, and the loop leaves the two integer sums in its accumulators
  (modulo \<open>2 ^ 32\<close>, whatever the counts).
\<close>

lemma sint_word_of_int_32:
  "- (2 ^ 31) \<le> k \<Longrightarrow> k < 2 ^ 31 \<Longrightarrow> sint (word_of_int k :: int_t) = k"
  by (simp add: sint_sbintrunc' signed_take_bit_int_eq_self)

lemma sdiv_nonneg: "0 \<le> a \<Longrightarrow> 0 \<le> b \<Longrightarrow> (a::int) sdiv b = a div b"
  by (cases "a = 0"; cases "b = 0") (simp_all add: signed_divide_int_def)

lemma int_div_nonneg:
  assumes "0 \<le> a" "a < 2 ^ 31" "0 \<le> b" "b < 2 ^ 31"
  shows "int_div (word_of_int a) (word_of_int b) = word_of_int (a div b)"
  using assms by (simp add: int_div_def sint_word_of_int_32 sdiv_nonneg)

lemma round_half_up_div:
  assumes "0 < (t::int)"
  shows "(a + t div 2) div t = aggregate_loss_spec a t"
proof -
  have "real_of_int a / real_of_int t + 1 / 2 = real_of_int (2 * a + t) / real_of_int (2 * t)"
    using assms by (simp add: field_simps)
  then have "aggregate_loss_spec a t = \<lfloor>real_of_int (2 * a + t) / real_of_int (2 * t)\<rfloor>"
    by (simp only: aggregate_loss_spec_def round_def)
  also have "\<dots> = (2 * a + t) div (2 * t)"
    by (rule floor_divide_of_int_eq)
  also have "\<dots> = (2 * a + t) div 2 div t"
    using assms by (simp add: zdiv_zmult2_eq)
  also have "(2 * a + t) div 2 = a + t div 2"
    by presburger
  finally show ?thesis by simp
qed

lemma report_blocks_loop_sums:
  "report_blocks_loop blocks (a, t, m) =
     (a + word_of_int (weighted_loss_sum m blocks), t + word_of_int (weight_sum m blocks),
      watermarks_after m blocks)"
proof (induction blocks arbitrary: a t m)
  case Nil
  show ?case by simp
next
  case (Cons it rest)
  have step: "report_block_step it (a, t, m) =
      (a + number_of_packets_of m it * ucast (fractionLost it),
       t + number_of_packets_of m it,
       m(sourceSSRC it \<mapsto> extendedHighSeqNum it))"
    by (simp add: report_block_step_def Let_def)
  have w1: "(word_of_int (weighted_loss_sum m (it # rest)) :: int_t) =
      number_of_packets_of m it * ucast (fractionLost it)
        + word_of_int (weighted_loss_sum (m(sourceSSRC it \<mapsto> extendedHighSeqNum it)) rest)"
    by simp
  have w2: "(word_of_int (weight_sum m (it # rest)) :: int_t) =
      number_of_packets_of m it
        + word_of_int (weight_sum (m(sourceSSRC it \<mapsto> extendedHighSeqNum it)) rest)"
    by simp
  show ?case
    unfolding report_blocks_loop.simps step Cons.IH w1 w2 watermarks_after.simps
    by (simp only: add.assoc)
qed

lemma stale_count:
  fixes ext w :: uint32_t
  assumes "ext < w" and "unat w - unat ext \<le> 2 ^ 31"
  shows "sint (ext - w) = - int (unat w - unat ext)"
proof -
  have le: "unat ext \<le> unat w" using assms(1) by (simp add: word_less_nat_alt)
  have "ext - w = word_of_int (uint ext - uint w)"
    by simp
  also have "uint ext - uint w = - int (unat w - unat ext)"
    using le by simp
  finally have "ext - w = word_of_int (- int (unat w - unat ext))" .
  moreover have "sint (word_of_int (- int (unat w - unat ext)) :: uint32_t) = - int (unat w - unat ext)"
    using assms(2) by (intro sint_word_of_int_32) simp_all
  ultimately show ?thesis by simp
qed

lemma weighted_loss_sum_bounds:
  "\<forall>n \<in> set (packet_counts m blocks). 0 \<le> sint n \<Longrightarrow>
   0 \<le> weighted_loss_sum m blocks \<and> weighted_loss_sum m blocks \<le> 255 * weight_sum m blocks
   \<and> 0 \<le> weight_sum m blocks"
proof (induction blocks arbitrary: m)
  case Nil
  show ?case by simp
next
  case (Cons it rest)
  define n where "n = sint (number_of_packets_of m it)"
  define f where "f = uint (fractionLost it)"
  define A where "A = weighted_loss_sum (m(sourceSSRC it \<mapsto> extendedHighSeqNum it)) rest"
  define T where "T = weight_sum (m(sourceSSRC it \<mapsto> extendedHighSeqNum it)) rest"
  from Cons.prems have n: "0 \<le> n" by (simp add: n_def)
  from Cons.prems
  have "\<forall>n \<in> set (packet_counts (m(sourceSSRC it \<mapsto> extendedHighSeqNum it)) rest). 0 \<le> sint n"
    by simp
  then have ih: "0 \<le> A \<and> A \<le> 255 * T \<and> 0 \<le> T"
    unfolding A_def T_def by (rule Cons.IH)
  have f0: "0 \<le> f" by (simp add: f_def)
  have "f < 2 ^ LENGTH(8)" unfolding f_def by (rule uint_lt2p)
  then have f1: "f \<le> 255" by simp
  have p0: "0 \<le> n * f" using n f0 by simp
  have "n * f \<le> n * 255" using f1 n by (rule mult_left_mono)
  then have p1: "n * f \<le> 255 * n" by (simp add: mult.commute)
  have d: "255 * (n + T) = 255 * n + 255 * T" by (simp add: distrib_left)
  have "0 \<le> n * f + A \<and> n * f + A \<le> 255 * (n + T) \<and> 0 \<le> n + T"
    unfolding d using ih n p0 p1 by auto
  then show ?case
    by (simp only: weighted_loss_sum.simps weight_sum.simps n_def f_def A_def T_def)
qed

lemma aggregate_loss_spec_range:
  assumes "0 \<le> a" "a \<le> 255 * t" "0 < t"
  shows "0 \<le> aggregate_loss_spec a t \<and> aggregate_loss_spec a t \<le> 255"
proof -
  have eq: "aggregate_loss_spec a t = (a + t div 2) div t"
    using assms(3) by (simp add: round_half_up_div)
  have "0 \<le> a + t div 2" using assms by simp
  then have "0 \<le> (a + t div 2) div t"
    using assms(3) by (simp add: pos_imp_zdiv_nonneg_iff)
  moreover have "(a + t div 2) div t \<le> (255 * t + t div 2) div t"
    using assms by (intro zdiv_mono1) simp_all
  moreover have "(255 * t + t div 2) div t = 255"
    using assms(3) by simp
  ultimately show ?thesis using eq by simp
qed

lemma MaybeTrigger_keeps_estimator:
  "bandwidth_estimation (fst (MaybeTriggerOnNetworkChanged ops c)) = bandwidth_estimation c"
  by (simp add: MaybeTriggerOnNetworkChanged_def Let_def split: prod.splits)

lemma observer_report_unfolded:
  assumes "blocks \<noteq> []"
  shows "RtcpObserver_OnReceivedRtcpReceiverReport ops blocks rtt now_ms (obs, c) =
    (let m = ssrc_to_last_received_extended_high_seq_num obs;
         fraction_lost_sum = (word_of_int (weighted_loss_sum m blocks) :: int_t);
         total_number_of_packets = (word_of_int (weight_sum m blocks) :: int_t);
         obs' = obs\<lparr>ssrc_to_last_received_extended_high_seq_num := watermarks_after m blocks\<rparr>;
         fraction_lost_aggregate =
           (if total_number_of_packets = 0 then 0
            else int_div (fraction_lost_sum + int_div total_number_of_packets 2)
                   total_number_of_packets)
     in if 255 <s fraction_lost_aggregate then ((obs', c), [])
        else
          case OnReceivedRtcpReceiverReport ops (ucast fraction_lost_aggregate) rtt
                 total_number_of_packets now_ms c of
            (c', ns) \<Rightarrow> ((obs', c'), ns))"
  using assms
  by (simp add: RtcpObserver_OnReceivedRtcpReceiverReport_def report_blocks_loop_sums Let_def)

lemma aggregate_in_int:
  assumes nonneg: "0 \<le> A" and le: "A \<le> 255 * T" and pos: "0 < T" and T: "T < 2 ^ 31"
      and sum: "A + T div 2 < 2 ^ 31"
  shows "int_div (word_of_int A + int_div (word_of_int T) 2) (word_of_int T)
           = word_of_int (aggregate_loss_spec A T)"
proof -
  have two: "(2 :: int_t) = word_of_int 2" by simp
  have "int_div (word_of_int T) 2 = word_of_int (T div 2)"
    unfolding two using pos T by (intro int_div_nonneg) simp_all
  then have "word_of_int A + int_div (word_of_int T) 2 = (word_of_int (A + T div 2) :: int_t)"
    by simp
  moreover have "int_div (word_of_int (A + T div 2)) (word_of_int T)
                   = word_of_int ((A + T div 2) div T)"
    using nonneg pos T sum by (intro int_div_nonneg) simp_all
  ultimately show ?thesis
    using pos by (simp add: round_half_up_div)
qed


lemma OnReceivedRtcpReceiverReport_estimator:
  "bandwidth_estimation (fst (OnReceivedRtcpReceiverReport ops f rtt n now_ms c)) =
     bwe_UpdateReceiverBlock ops f rtt n now_ms (bandwidth_estimation c)"
  by (simp add: OnReceivedRtcpReceiverReport_def MaybeTrigger_keeps_estimator)

lemma zero_counts_zero_sums:
  "\<forall>n \<in> set (packet_counts m blocks). n = 0 \<Longrightarrow>
   weighted_loss_sum m blocks = 0 \<and> weight_sum m blocks = 0"
  by (induction blocks arbitrary: m) simp_all

subsection \<open>A block older than the stored watermark\<close>

text \<open>
  Claim C2, as the code has it. The claim says the count of a block older than the
  stored watermark is clamped to zero and the watermark never moves backward. The
  loop has no clamp: for a block whose \<^verbatim>\<open>extendedHighSeqNum\<close> is below the stored
  value \<open>w\<close> of its SSRC by \<open>d\<close>, with \<open>d \<le> 2 ^ 31\<close>, the \<^verbatim>\<open>int\<close>
  \<^verbatim>\<open>number_of_packets\<close> is \<open>- d\<close>; it is added as it is to both sums; and the
  map entry of the SSRC is overwritten with the block's smaller
  \<^verbatim>\<open>extendedHighSeqNum\<close>.
\<close>

theorem stale_block_count_is_negative_and_watermark_rewinds:
  assumes stored: "m (sourceSSRC it) = Some w"
      and older: "extendedHighSeqNum it < w"
      and near: "unat w - unat (extendedHighSeqNum it) \<le> 2 ^ 31"
  shows "sint (number_of_packets_of m it) = - int (unat w - unat (extendedHighSeqNum it)) \<and>
         sint (number_of_packets_of m it) < 0 \<and>
         report_block_step it (agg, tot, m) =
           (agg + number_of_packets_of m it * ucast (fractionLost it),
            tot + number_of_packets_of m it,
            m(sourceSSRC it \<mapsto> extendedHighSeqNum it)) \<and>
         snd (snd (report_block_step it (agg, tot, m))) (sourceSSRC it)
           = Some (extendedHighSeqNum it)"
proof -
  have n: "number_of_packets_of m it = extendedHighSeqNum it - w"
    using stored by (simp add: number_of_packets_of_def)
  have s: "sint (number_of_packets_of m it) = - int (unat w - unat (extendedHighSeqNum it))"
    unfolding n using older near by (rule stale_count)
  have "unat (extendedHighSeqNum it) < unat w"
    using older by (simp only: word_less_nat_alt)
  then have "0 < unat w - unat (extendedHighSeqNum it)"
    by (simp only: zero_less_diff)
  then have neg: "sint (number_of_packets_of m it) < 0"
    unfolding s by linarith
  have step: "report_block_step it (agg, tot, m) =
           (agg + number_of_packets_of m it * ucast (fractionLost it),
            tot + number_of_packets_of m it,
            m(sourceSSRC it \<mapsto> extendedHighSeqNum it))"
    by (simp add: report_block_step_def Let_def)
  have last: "snd (snd (report_block_step it (agg, tot, m))) (sourceSSRC it)
                = Some (extendedHighSeqNum it)"
    by (simp add: step)
  from s neg step last show ?thesis by (intro conjI)
qed

text \<open>
  With 100 stored for SSRC 1, a block with \<^verbatim>\<open>extendedHighSeqNum\<close> 90 counts \<open>- 10\<close>
  packets and leaves 90 in the map.
\<close>

theorem stale_block_count_is_negative_and_watermark_rewinds_witness:
  "ssrc_to_last_received_extended_high_seq_num observer_at_100 (sourceSSRC stale_block) = Some 100 \<and>
   extendedHighSeqNum stale_block = 90 \<and>
   sint (number_of_packets_of (ssrc_to_last_received_extended_high_seq_num observer_at_100)
           stale_block) = - 10 \<and>
   snd (snd (report_block_step stale_block
               (0, 0, ssrc_to_last_received_extended_high_seq_num observer_at_100)))
     (sourceSSRC stale_block) = Some 90"
proof -
  define m where "m = ssrc_to_last_received_extended_high_seq_num observer_at_100"
  have stored: "m (sourceSSRC stale_block) = Some 100"
    unfolding m_def by code_simp
  have ext: "extendedHighSeqNum stale_block = 90"
    by code_simp
  have older: "extendedHighSeqNum stale_block < 100"
    by (simp add: ext)
  have near: "unat (100 :: uint32_t) - unat (extendedHighSeqNum stale_block) \<le> 2 ^ 31"
    by (simp add: ext)
  from stale_block_count_is_negative_and_watermark_rewinds
         [of m stale_block 100 0 0, OF stored older near]
  show ?thesis
    using stored ext by (simp add: m_def)
qed

text \<open>
  The claim fails at this input: the count is \<open>- 10\<close> and not zero, the total the
  loop accumulates is \<open>- 10\<close>, and after the call the observer's map holds 90 for
  SSRC 1 where it held 100.
\<close>

theorem stale_block_is_not_clamped:
  "ssrc_to_last_received_extended_high_seq_num observer_at_100 (sourceSSRC stale_block) = Some 100 \<and>
   extendedHighSeqNum stale_block = 90 \<and>
   sint (number_of_packets_of (ssrc_to_last_received_extended_high_seq_num observer_at_100)
           stale_block) = - 10 \<and>
   sint (fst (snd (report_blocks_loop [stale_block]
           (0, 0, ssrc_to_last_received_extended_high_seq_num observer_at_100)))) = - 10 \<and>
   ssrc_to_last_received_extended_high_seq_num
     (fst (fst (RtcpObserver_OnReceivedRtcpReceiverReport example_ops [stale_block] 40 2000
                  (observer_at_100, configured_controller)))) (sourceSSRC stale_block) = Some 90"
  by code_simp

subsection \<open>The aggregate loss fraction\<close>

text \<open>
  Claim C5, as the code has it. When no block of the batch is older than its stored
  watermark (every count is non-negative as an \<^verbatim>\<open>int\<close>), the total count is positive
  and the sums stay in the range of \<^verbatim>\<open>int\<close>, the observer calls the controller's
  \<^verbatim>\<open>OnReceivedRtcpReceiverReport\<close>, and through it the estimator's
  \<^verbatim>\<open>UpdateReceiverBlock\<close>, with the loss fraction
  \<open>round (weighted loss / total count)\<close>, a half rounded up, and with the total
  count. That loss fraction is between 0 and 255, so the batch is never dropped and
  the cast to \<^verbatim>\<open>uint8_t\<close> keeps the value.
\<close>

theorem aggregate_loss_is_rounded_weighted_mean:
  assumes m: "m = ssrc_to_last_received_extended_high_seq_num obs"
      and counts: "\<forall>n \<in> set (packet_counts m blocks). 0 \<le> sint n"
      and pos: "0 < weight_sum m blocks"
      and T: "weight_sum m blocks < 2 ^ 31"
      and sum: "weighted_loss_sum m blocks + weight_sum m blocks div 2 < 2 ^ 31"
  shows "RtcpObserver_OnReceivedRtcpReceiverReport ops blocks rtt now_ms (obs, c) =
           (case OnReceivedRtcpReceiverReport ops
                   (word_of_int (aggregate_loss_spec (weighted_loss_sum m blocks) (weight_sum m blocks)))
                   rtt (word_of_int (weight_sum m blocks)) now_ms c of
              (c', ns) \<Rightarrow>
                ((obs\<lparr>ssrc_to_last_received_extended_high_seq_num := watermarks_after m blocks\<rparr>,
                  c'), ns))
         \<and> bandwidth_estimation
             (snd (fst (RtcpObserver_OnReceivedRtcpReceiverReport ops blocks rtt now_ms (obs, c))))
           = bwe_UpdateReceiverBlock ops
               (word_of_int (aggregate_loss_spec (weighted_loss_sum m blocks) (weight_sum m blocks)))
               rtt (word_of_int (weight_sum m blocks)) now_ms (bandwidth_estimation c)
         \<and> uint (word_of_int (aggregate_loss_spec (weighted_loss_sum m blocks) (weight_sum m blocks))
                   :: uint8_t)
           = aggregate_loss_spec (weighted_loss_sum m blocks) (weight_sum m blocks)
         \<and> sint (word_of_int (weight_sum m blocks) :: int_t) = weight_sum m blocks"
proof -
  define A where "A = weighted_loss_sum m blocks"
  define W where "W = weight_sum m blocks"
  define g where "g = aggregate_loss_spec A W"
  have ne: "blocks \<noteq> []" using pos by (cases blocks) simp_all
  from weighted_loss_sum_bounds [OF counts]
  have A0: "0 \<le> A" and A1: "A \<le> 255 * W" by (simp_all add: A_def W_def)
  have W0: "0 < W" and W1: "W < 2 ^ 31" and AW: "A + W div 2 < 2 ^ 31"
    using pos T sum by (simp_all add: A_def W_def)
  from aggregate_loss_spec_range [OF A0 A1 W0]
  have g0: "0 \<le> g" and g1: "g \<le> 255" by (simp_all add: g_def)
  have sW: "sint (word_of_int W :: int_t) = W"
    using W0 W1 by (intro sint_word_of_int_32) simp_all
  then have Wne: "(word_of_int W :: int_t) \<noteq> 0" using W0 by auto
  have agg: "int_div (word_of_int A + int_div (word_of_int W) 2) (word_of_int W)
               = (word_of_int g :: int_t)"
    unfolding g_def using A0 A1 W0 W1 AW by (rule aggregate_in_int)
  have sg: "sint (word_of_int g :: int_t) = g"
    using g0 g1 by (intro sint_word_of_int_32) simp_all
  then have small: "\<not> 255 <s (word_of_int g :: int_t)"
    using g1 by (simp add: word_sless_alt)
  have "uint (word_of_int g :: int_t) = g"
    using g0 g1 by (simp add: uint_word_of_int take_bit_int_eq_self)
  then have cast: "(ucast (word_of_int g :: int_t) :: uint8_t) = word_of_int g"
    by (simp add: ucast_eq del: of_int_uint)
  have ug: "uint (word_of_int g :: uint8_t) = g"
    using g0 g1 by (simp add: uint_word_of_int take_bit_int_eq_self)
  have main: "RtcpObserver_OnReceivedRtcpReceiverReport ops blocks rtt now_ms (obs, c) =
           (case OnReceivedRtcpReceiverReport ops (word_of_int g) rtt (word_of_int W) now_ms c of
              (c', ns) \<Rightarrow>
                ((obs\<lparr>ssrc_to_last_received_extended_high_seq_num := watermarks_after m blocks\<rparr>,
                  c'), ns))"
    unfolding observer_report_unfolded [OF ne] Let_def m [symmetric] A_def [symmetric]
      W_def [symmetric]
    using Wne small by (simp add: agg cast)
  have est: "bandwidth_estimation
             (snd (fst (RtcpObserver_OnReceivedRtcpReceiverReport ops blocks rtt now_ms (obs, c))))
           = bwe_UpdateReceiverBlock ops (word_of_int g) rtt (word_of_int W) now_ms
               (bandwidth_estimation c)"
    unfolding main
    by (cases "OnReceivedRtcpReceiverReport ops (word_of_int g) rtt (word_of_int W) now_ms c")
       (use OnReceivedRtcpReceiverReport_estimator
              [of ops "word_of_int g" rtt "word_of_int W" now_ms c] in simp)
  show ?thesis
    using main est ug sW unfolding g_def A_def W_def by simp
qed

text \<open>
  The specification's example: counts 100 and 50 with loss fractions 10 and 40 give the
  sums 3000 and 150, and the estimator is called with loss fraction 20 and 150 packets.
\<close>

theorem aggregate_loss_is_rounded_weighted_mean_witness:
  "packet_counts (ssrc_to_last_received_extended_high_seq_num observer_at_100) two_flows
     = [100, 50] \<and>
   weighted_loss_sum (ssrc_to_last_received_extended_high_seq_num observer_at_100) two_flows
     = 3000 \<and>
   weight_sum (ssrc_to_last_received_extended_high_seq_num observer_at_100) two_flows = 150 \<and>
   aggregate_loss_spec 3000 150 = 20 \<and>
   bandwidth_estimation (snd (fst
     (RtcpObserver_OnReceivedRtcpReceiverReport example_ops two_flows 40 2000
        (observer_at_100, configured_controller))))
     = bwe_UpdateReceiverBlock example_ops 20 40 150 2000
         (bandwidth_estimation configured_controller)"
proof -
  define m where "m = ssrc_to_last_received_extended_high_seq_num observer_at_100"
  have pc: "packet_counts m two_flows = [100, 50]"
    unfolding m_def by code_simp
  have a: "weighted_loss_sum m two_flows = 3000"
    unfolding m_def by code_simp
  have w: "weight_sum m two_flows = 150"
    unfolding m_def by code_simp
  have g: "aggregate_loss_spec 3000 150 = 20"
    by (simp add: aggregate_loss_spec_def)
  have counts: "\<forall>n \<in> set (packet_counts m two_flows). 0 \<le> sint n"
    by (simp add: pc)
  have pos: "0 < weight_sum m two_flows" and T: "weight_sum m two_flows < 2 ^ 31"
    and sum: "weighted_loss_sum m two_flows + weight_sum m two_flows div 2 < 2 ^ 31"
    by (simp_all add: a w)
  from aggregate_loss_is_rounded_weighted_mean
         [OF m_def counts pos T sum, of example_ops 40 2000 configured_controller,
          THEN conjunct2, THEN conjunct1]
  have "bandwidth_estimation (snd (fst
     (RtcpObserver_OnReceivedRtcpReceiverReport example_ops two_flows 40 2000
        (observer_at_100, configured_controller))))
     = bwe_UpdateReceiverBlock example_ops 20 40 150 2000
         (bandwidth_estimation configured_controller)"
    by (simp add: a w g)
  with pc a w g show ?thesis by (simp add: m_def)
qed

text \<open>
  The claim fails at two inputs. For the two flows of its example the aggregate is
  \<open>round (3000 / 150) = 20\<close>, and 20 is what the estimator records, not 12. And for
  a batch with a positive total count of 10 made of a count of \<open>- 10\<close> with loss
  fraction 255 and a count of 20 with loss fraction 0, the weighted loss is \<open>- 2550\<close>,
  its rounded quotient is \<open>- 255\<close>, and the estimator is given 2: the quotient
  truncated towards zero, \<open>- 254\<close>, cast to \<^verbatim>\<open>uint8_t\<close>.
\<close>

theorem two_flows_aggregate_is_20_not_12:
  "weighted_loss_sum (ssrc_to_last_received_extended_high_seq_num observer_at_100) two_flows = 3000 \<and>
   weight_sum (ssrc_to_last_received_extended_high_seq_num observer_at_100) two_flows = 150 \<and>
   aggregate_loss_spec 3000 150 = 20 \<and>
   last_loss_fraction (bandwidth_estimation (snd (fst
     (RtcpObserver_OnReceivedRtcpReceiverReport example_ops two_flows 40 2000
        (observer_at_100, configured_controller))))) = 20 \<and>
   weighted_loss_sum (ssrc_to_last_received_extended_high_seq_num observer_at_100)
     [stale_block, fresh_block] = - 2550 \<and>
   weight_sum (ssrc_to_last_received_extended_high_seq_num observer_at_100)
     [stale_block, fresh_block] = 10 \<and>
   aggregate_loss_spec (- 2550) 10 = - 255 \<and>
   last_loss_fraction (bandwidth_estimation (snd (fst
     (RtcpObserver_OnReceivedRtcpReceiverReport example_ops [stale_block, fresh_block] 40 2000
        (observer_at_100, configured_controller))))) = 2"
proof -
  have a: "weighted_loss_sum (ssrc_to_last_received_extended_high_seq_num observer_at_100)
             two_flows = 3000"
    by code_simp
  have b: "weight_sum (ssrc_to_last_received_extended_high_seq_num observer_at_100) two_flows
             = 150"
    by code_simp
  have c: "aggregate_loss_spec 3000 150 = 20"
    by (simp add: aggregate_loss_spec_def)
  have d: "last_loss_fraction (bandwidth_estimation (snd (fst
     (RtcpObserver_OnReceivedRtcpReceiverReport example_ops two_flows 40 2000
        (observer_at_100, configured_controller))))) = 20"
    by code_simp
  have e: "weighted_loss_sum (ssrc_to_last_received_extended_high_seq_num observer_at_100)
     [stale_block, fresh_block] = - 2550"
    by code_simp
  have f: "weight_sum (ssrc_to_last_received_extended_high_seq_num observer_at_100)
     [stale_block, fresh_block] = 10"
    by code_simp
  have g: "aggregate_loss_spec (- 2550) 10 = - 255"
    by (simp add: aggregate_loss_spec_def)
  have h: "last_loss_fraction (bandwidth_estimation (snd (fst
     (RtcpObserver_OnReceivedRtcpReceiverReport example_ops [stale_block, fresh_block] 40 2000
        (observer_at_100, configured_controller))))) = 2"
    by code_simp
  from a b c d e f g h show ?thesis by simp
qed

subsection \<open>Empty batches and batches without new packets\<close>

text \<open>
  Claim C6, as the code has it. The claim says an empty batch is forwarded to the
  estimator as a zero update. An empty batch returns at once: nothing is forwarded,
  no state changes and the observer is not called. A batch that is not empty and in
  which every block counts zero packets is forwarded to the controller's
  \<^verbatim>\<open>OnReceivedRtcpReceiverReport\<close>, and by it to the estimator's
  \<^verbatim>\<open>UpdateReceiverBlock\<close>, with \<open>fraction_loss = 0\<close> and
  \<open>number_of_packets = 0\<close>, after the map took the blocks' sequence numbers. The
  first block of an SSRC counts zero packets. What the estimator does with the zero
  update is not decided in this file.
\<close>

theorem empty_batch_returns_and_zero_weight_batch_forwards_zeros:
  assumes m: "m = ssrc_to_last_received_extended_high_seq_num obs"
  shows "RtcpObserver_OnReceivedRtcpReceiverReport ops [] rtt now_ms (obs, c) = ((obs, c), []) \<and>
    (blocks \<noteq> [] \<and> (\<forall>n \<in> set (packet_counts m blocks). n = 0) \<longrightarrow>
       RtcpObserver_OnReceivedRtcpReceiverReport ops blocks rtt now_ms (obs, c) =
         (case OnReceivedRtcpReceiverReport ops 0 rtt 0 now_ms c of
            (c', ns) \<Rightarrow>
              ((obs\<lparr>ssrc_to_last_received_extended_high_seq_num := watermarks_after m blocks\<rparr>,
                c'), ns)) \<and>
       bandwidth_estimation
         (snd (fst (RtcpObserver_OnReceivedRtcpReceiverReport ops blocks rtt now_ms (obs, c))))
         = bwe_UpdateReceiverBlock ops 0 rtt 0 now_ms (bandwidth_estimation c)) \<and>
    (m (sourceSSRC it) = None \<longrightarrow> number_of_packets_of m it = 0)"
proof (intro conjI impI)
  show "RtcpObserver_OnReceivedRtcpReceiverReport ops [] rtt now_ms (obs, c) = ((obs, c), [])"
    by (simp add: RtcpObserver_OnReceivedRtcpReceiverReport_def)
next
  assume h: "blocks \<noteq> [] \<and> (\<forall>n \<in> set (packet_counts m blocks). n = 0)"
  then have ne: "blocks \<noteq> []" and z: "\<forall>n \<in> set (packet_counts m blocks). n = 0"
    by simp_all
  from zero_counts_zero_sums [OF z]
  have a: "weighted_loss_sum m blocks = 0" and w: "weight_sum m blocks = 0" by simp_all
  show main: "RtcpObserver_OnReceivedRtcpReceiverReport ops blocks rtt now_ms (obs, c) =
         (case OnReceivedRtcpReceiverReport ops 0 rtt 0 now_ms c of
            (c', ns) \<Rightarrow>
              ((obs\<lparr>ssrc_to_last_received_extended_high_seq_num := watermarks_after m blocks\<rparr>,
                c'), ns))"
    unfolding observer_report_unfolded [OF ne] Let_def m [symmetric]
    by (simp add: a w word_sless_alt)
  show "bandwidth_estimation
         (snd (fst (RtcpObserver_OnReceivedRtcpReceiverReport ops blocks rtt now_ms (obs, c))))
         = bwe_UpdateReceiverBlock ops 0 rtt 0 now_ms (bandwidth_estimation c)"
    unfolding main
    by (cases "OnReceivedRtcpReceiverReport ops 0 rtt 0 now_ms c")
       (use OnReceivedRtcpReceiverReport_estimator [of ops 0 rtt 0 now_ms c] in simp)
next
  assume "m (sourceSSRC it) = None"
  then show "number_of_packets_of m it = 0"
    by (simp add: number_of_packets_of_def)
qed

text \<open>
  The first block of SSRC 7 counts no packets: the estimator is called with zeros,
  which the estimator modelled from the specification ignores. The empty batch
  changes nothing.
\<close>

theorem empty_batch_returns_and_zero_weight_batch_forwards_zeros_witness:
  "packet_counts (ssrc_to_last_received_extended_high_seq_num observer_at_100) [first_block]
     = [0] \<and>
   bandwidth_estimation (snd (fst
     (RtcpObserver_OnReceivedRtcpReceiverReport example_ops [first_block] 40 2000
        (observer_at_100, configured_controller))))
     = bwe_UpdateReceiverBlock example_ops 0 40 0 2000 (bandwidth_estimation configured_controller) \<and>
   bwe_UpdateReceiverBlock example_ops 0 40 0 2000 (bandwidth_estimation configured_controller)
     = bandwidth_estimation configured_controller \<and>
   RtcpObserver_OnReceivedRtcpReceiverReport example_ops [] 40 2000
     (observer_at_100, configured_controller) = ((observer_at_100, configured_controller), [])"
proof -
  define m where "m = ssrc_to_last_received_extended_high_seq_num observer_at_100"
  have pc: "packet_counts m [first_block] = [0]"
    unfolding m_def by code_simp
  then have h: "[first_block] \<noteq> [] \<and> (\<forall>n \<in> set (packet_counts m [first_block]). n = 0)"
    by simp
  have ign: "bwe_UpdateReceiverBlock example_ops 0 40 0 2000
               (bandwidth_estimation configured_controller)
             = bandwidth_estimation configured_controller"
    by code_simp
  note t = empty_batch_returns_and_zero_weight_batch_forwards_zeros
             [OF m_def, of example_ops 40 2000 configured_controller "[first_block]" first_block]
  from t have e: "RtcpObserver_OnReceivedRtcpReceiverReport example_ops [] 40 2000
     (observer_at_100, configured_controller) = ((observer_at_100, configured_controller), [])"
    by (rule conjunct1)
  from t [THEN conjunct2, THEN conjunct1, rule_format, OF h, THEN conjunct2]
  have f: "bandwidth_estimation (snd (fst
     (RtcpObserver_OnReceivedRtcpReceiverReport example_ops [first_block] 40 2000
        (observer_at_100, configured_controller))))
     = bwe_UpdateReceiverBlock example_ops 0 40 0 2000 (bandwidth_estimation configured_controller)" .
  from pc e f ign show ?thesis by (simp add: m_def)
qed

text \<open>
  The claim fails for the empty batch. The call returns the state unchanged and an
  empty list of notifications; had the batch been forwarded as a zero update, the
  controller would have compared snapshots and, in this state, called the observer.
\<close>

theorem empty_batch_is_not_forwarded:
  "RtcpObserver_OnReceivedRtcpReceiverReport example_ops [] 40 2000
     (observer_at_100, configured_controller) = ((observer_at_100, configured_controller), []) \<and>
   snd (OnReceivedRtcpReceiverReport example_ops 0 40 0 2000 configured_controller)
     = [(500000, 0, 0)]"
proof -
  have "snd (OnReceivedRtcpReceiverReport example_ops 0 40 0 2000 configured_controller)
     = [(500000, 0, 0)]"
    by code_simp
  then show ?thesis
    by (simp add: RtcpObserver_OnReceivedRtcpReceiverReport_def)
qed

subsection \<open>Change detection\<close>

text \<open>
  \<^verbatim>\<open>MaybeTriggerOnNetworkChanged\<close> leaves the snapshot as it is, stores it as the tuple
  last notified, and calls the observer once when the two differed and not at all when
  they were equal.
\<close>

lemma MaybeTrigger_snapshot:
  "snapshot ops (fst (MaybeTriggerOnNetworkChanged ops c)) = snapshot ops c \<and>
   last_notified (fst (MaybeTriggerOnNetworkChanged ops c)) = snapshot ops c \<and>
   snd (MaybeTriggerOnNetworkChanged ops c) =
     (if snapshot ops c = last_notified c then []
      else [(fst (snapshot ops c), fst (snd (snapshot ops c)), fst (snd (snd (snapshot ops c))))])"
  by (cases "bwe_CurrentEstimate ops (bandwidth_estimation c)")
     (auto simp add: MaybeTriggerOnNetworkChanged_def snapshot_def last_notified_def Let_def)

lemma MaybeTrigger_expected:
  assumes "last_notified cm = last_notified c"
  shows "snd (MaybeTriggerOnNetworkChanged ops cm)
           = expected_notifications ops c (fst (MaybeTriggerOnNetworkChanged ops cm)) \<and>
         last_notified (fst (MaybeTriggerOnNetworkChanged ops cm))
           = snapshot ops (fst (MaybeTriggerOnNetworkChanged ops cm))"
proof -
  note t = MaybeTrigger_snapshot [of ops cm]
  from t have s: "snapshot ops (fst (MaybeTriggerOnNetworkChanged ops cm)) = snapshot ops cm"
    by (rule conjunct1)
  from t have l: "last_notified (fst (MaybeTriggerOnNetworkChanged ops cm)) = snapshot ops cm"
    by (rule conjunct2 [THEN conjunct1])
  from t have n: "snd (MaybeTriggerOnNetworkChanged ops cm) =
     (if snapshot ops cm = last_notified cm then []
      else [(fst (snapshot ops cm), fst (snd (snapshot ops cm)),
             fst (snd (snd (snapshot ops cm))))])"
    by (rule conjunct2 [THEN conjunct2])
  show ?thesis
    unfolding expected_notifications_def s l n assms
    by (cases "snapshot ops cm") simp
qed

lemma expected_notifications_length:
  "length (expected_notifications ops c c') = (if snapshot ops c' = last_notified c then 0 else 1)"
  by (cases "snapshot ops c'") (simp add: expected_notifications_def)

lemma snapshot_update_ms [simp]:
  "snapshot ops (c\<lparr>last_bitrate_update_ms := t\<rparr>) = snapshot ops c"
  by (simp add: snapshot_def)

lemma last_notified_updates [simp]:
  "last_notified (c\<lparr>last_bitrate_update_ms := t\<rparr>) = last_notified c"
  "last_notified (c\<lparr>bandwidth_estimation := e\<rparr>) = last_notified c"
  "last_notified (c\<lparr>remb_suppressor := r\<rparr>) = last_notified c"
  "last_notified (c\<lparr>reserved_bitrate_bps := b\<rparr>) = last_notified c"
  by (simp_all add: last_notified_def)

lemma expected_notifications_update_ms [simp]:
  "expected_notifications ops c (c'\<lparr>last_bitrate_update_ms := t\<rparr>)
     = expected_notifications ops c c'"
  by (simp add: expected_notifications_def)

lemma observer_report_cases:
  "RtcpObserver_OnReceivedRtcpReceiverReport ops blocks rtt now_ms (obs, c) =
     (if blocks = [] then ((obs, c), [])
      else
        let m = ssrc_to_last_received_extended_high_seq_num obs;
            r = report_blocks_loop blocks (0, 0, m);
            obs' = obs\<lparr>ssrc_to_last_received_extended_high_seq_num := snd (snd r)\<rparr>
        in if 255 <s fraction_lost_aggregate_of m blocks then ((obs', c), [])
           else ((obs',
                  fst (OnReceivedRtcpReceiverReport ops (ucast (fraction_lost_aggregate_of m blocks))
                         rtt (fst (snd r)) now_ms c)),
                 snd (OnReceivedRtcpReceiverReport ops (ucast (fraction_lost_aggregate_of m blocks))
                         rtt (fst (snd r)) now_ms c)))"
  by (simp add: RtcpObserver_OnReceivedRtcpReceiverReport_def fraction_lost_aggregate_of_def
        Let_def split: prod.splits)


text \<open>
  Claim C3, as the code has it. The claim says every event notifies exactly once when
  the snapshot differs from the tuple last notified. An event that returns before
  \<^verbatim>\<open>MaybeTriggerOnNetworkChanged\<close> (a suppressed estimate, an empty batch or one whose
  aggregate exceeds 255, an early tick) never calls the observer and leaves the tuple
  last notified as it was. Every other event calls the observer exactly once, with
  the new snapshot, if the snapshot of the state after the event differs from the
  tuple last notified before it, and not at all if they are equal; and it leaves the
  snapshot as the tuple last notified.
\<close>

theorem event_notifies_once_iff_snapshot_changed_unless_it_returns_early:
  "(let c = snd w; c' = snd (fst (handle_event ops ev w)); ns = snd (handle_event ops ev w)
    in (returns_early ops ev w \<longrightarrow> ns = [] \<and> last_notified c' = last_notified c) \<and>
       (\<not> returns_early ops ev w \<longrightarrow>
          ns = expected_notifications ops c c' \<and>
          length ns = (if snapshot ops c' = last_notified c then 0 else 1) \<and>
          last_notified c' = snapshot ops c'))"
proof -
  obtain obs c where w: "w = (obs, c)" by (cases w)
  show ?thesis
  proof (cases ev)
    case (EstimatedBitrateArrival now bitrate)
    obtain suppress r where
      sr: "remb_SuppresNewRemb ops now bitrate (remb_suppressor c) = (suppress, r)"
      by (cases "remb_SuppresNewRemb ops now bitrate (remb_suppressor c)")
    define cm where "cm = c\<lparr>remb_suppressor := r,
        bandwidth_estimation := bwe_UpdateReceiverEstimate ops bitrate (bandwidth_estimation c)\<rparr>"
    have lm: "last_notified cm = last_notified c" by (simp add: cm_def last_notified_def)
    show ?thesis
    proof (cases suppress)
      case True
      then show ?thesis
        using sr by (simp add: w EstimatedBitrateArrival
            RtcpObserver_OnReceivedEstimatedBitrate_def OnReceivedEstimatedBitrate_def Let_def)
    next
      case False
      then have h: "handle_event ops ev (obs, c) =
          ((obs, fst (MaybeTriggerOnNetworkChanged ops cm)),
           snd (MaybeTriggerOnNetworkChanged ops cm))"
        using sr by (simp add: w EstimatedBitrateArrival cm_def
            RtcpObserver_OnReceivedEstimatedBitrate_def OnReceivedEstimatedBitrate_def
            split: prod.splits)
      have e: "\<not> returns_early ops ev w"
        using False sr by (simp add: w EstimatedBitrateArrival)
      from MaybeTrigger_expected [OF lm, of ops] e show ?thesis
        by (simp add: h Let_def w expected_notifications_length)
    qed
  next
    case (ReceiverReportArrival blocks rtt now_ms)
    define m where "m = ssrc_to_last_received_extended_high_seq_num obs"
    define r where "r = report_blocks_loop blocks (0, 0, m)"
    define cm where "cm = c\<lparr>bandwidth_estimation :=
        bwe_UpdateReceiverBlock ops (ucast (fraction_lost_aggregate_of m blocks)) rtt
          (fst (snd r)) now_ms (bandwidth_estimation c)\<rparr>"
    have lm: "last_notified cm = last_notified c" by (simp add: cm_def)
    show ?thesis
    proof (cases "returns_early ops ev w")
      case True
      then show ?thesis
        by (auto simp add: w ReceiverReportArrival observer_report_cases Let_def)
    next
      case False
      then have ne: "blocks \<noteq> []"
        and small: "\<not> 255 <s fraction_lost_aggregate_of m blocks"
        by (simp_all add: w ReceiverReportArrival m_def)
      have h: "handle_event ops ev (obs, c) =
          ((obs\<lparr>ssrc_to_last_received_extended_high_seq_num := snd (snd r)\<rparr>,
            fst (MaybeTriggerOnNetworkChanged ops cm)),
           snd (MaybeTriggerOnNetworkChanged ops cm))"
        using ne small
        by (simp add: w ReceiverReportArrival observer_report_cases Let_def
            m_def [symmetric] r_def [symmetric] OnReceivedRtcpReceiverReport_def cm_def)
      from MaybeTrigger_expected [OF lm, of ops] False show ?thesis
        by (simp add: h Let_def w expected_notifications_length)
    qed
  next
    case (PeriodicTick now now_update now_done)
    define cm where "cm = c\<lparr>bandwidth_estimation :=
        bwe_UpdateEstimate ops now_update (bandwidth_estimation c)\<rparr>"
    have lm: "last_notified cm = last_notified c" by (simp add: cm_def)
    show ?thesis
    proof (cases "0 <s TimeUntilNextProcess now c")
      case True
      then show ?thesis
        by (simp add: w PeriodicTick Process_def)
    next
      case False
      then have h: "handle_event ops ev (obs, c) =
          ((obs, (fst (MaybeTriggerOnNetworkChanged ops cm))\<lparr>last_bitrate_update_ms := now_done\<rparr>),
           snd (MaybeTriggerOnNetworkChanged ops cm))"
        by (simp add: w PeriodicTick Process_def cm_def split: prod.splits)
      have e: "\<not> returns_early ops ev w"
        using False by (simp add: w PeriodicTick)
      from MaybeTrigger_expected [OF lm, of ops] e show ?thesis
        by (simp add: h Let_def w expected_notifications_length)
    qed
  next
    case (ReservedBitrateChange reserved)
    define cm where "cm = c\<lparr>reserved_bitrate_bps := reserved\<rparr>"
    have lm: "last_notified cm = last_notified c" by (simp add: cm_def)
    have h: "handle_event ops ev (obs, c) =
          ((obs, fst (MaybeTriggerOnNetworkChanged ops cm)),
           snd (MaybeTriggerOnNetworkChanged ops cm))"
      by (simp add: w ReservedBitrateChange SetReservedBitrate_def cm_def split: prod.splits)
    have e: "\<not> returns_early ops ev w"
      by (simp add: ReservedBitrateChange)
    from MaybeTrigger_expected [OF lm, of ops] e show ?thesis
      by (simp add: h Let_def w expected_notifications_length)
  qed
qed


text \<open>
  A tick that is due, 30 ms after the controller was built with a start bitrate of
  500000 bps, notifies once; setting the reserved bitrate to the value it has, right
  after, notifies nobody; a tick after 10 ms returns early.
\<close>

theorem event_notifies_once_iff_snapshot_changed_unless_it_returns_early_witness:
  "\<not> returns_early example_ops (PeriodicTick 1030 1031 1032)
       (observer_at_100, configured_controller) \<and>
   last_notified configured_controller = (0, 0, 0, 0) \<and>
   snapshot example_ops (snd (fst (handle_event example_ops (PeriodicTick 1030 1031 1032)
       (observer_at_100, configured_controller)))) = (500000, 0, 0, 0) \<and>
   snd (handle_event example_ops (PeriodicTick 1030 1031 1032)
       (observer_at_100, configured_controller)) = [(500000, 0, 0)] \<and>
   snd (handle_event example_ops (ReservedBitrateChange 0)
       (fst (handle_event example_ops (PeriodicTick 1030 1031 1032)
          (observer_at_100, configured_controller)))) = [] \<and>
   returns_early example_ops (PeriodicTick 1010 1011 1012)
       (observer_at_100, configured_controller) \<and>
   snd (handle_event example_ops (PeriodicTick 1010 1011 1012)
       (observer_at_100, configured_controller)) = []"
proof -
  define w where "w = (observer_at_100, configured_controller)"
  define w' where "w' = fst (handle_event example_ops (PeriodicTick 1030 1031 1032) w)"
  have due: "\<not> returns_early example_ops (PeriodicTick 1030 1031 1032) w"
    unfolding w_def by code_simp
  have early: "returns_early example_ops (PeriodicTick 1010 1011 1012) w"
    unfolding w_def by code_simp
  have same: "\<not> returns_early example_ops (ReservedBitrateChange 0) w'"
    by simp
  have l: "last_notified (snd w) = (0, 0, 0, 0)"
    unfolding w_def by code_simp
  have s: "snapshot example_ops (snd w') = (500000, 0, 0, 0)"
    unfolding w'_def w_def by code_simp
  have e1: "expected_notifications example_ops (snd w) (snd w') = [(500000, 0, 0)]"
    unfolding w'_def w_def by code_simp
  have e2: "expected_notifications example_ops (snd w')
              (snd (fst (handle_event example_ops (ReservedBitrateChange 0) w'))) = []"
    unfolding w'_def w_def by code_simp
  note t1 = event_notifies_once_iff_snapshot_changed_unless_it_returns_early
              [of w example_ops "PeriodicTick 1030 1031 1032", unfolded Let_def,
               THEN conjunct2, rule_format, OF due, THEN conjunct1]
  note t2 = event_notifies_once_iff_snapshot_changed_unless_it_returns_early
              [of w' example_ops "ReservedBitrateChange 0", unfolded Let_def,
               THEN conjunct2, rule_format, OF same, THEN conjunct1]
  note t3 = event_notifies_once_iff_snapshot_changed_unless_it_returns_early
              [of w example_ops "PeriodicTick 1010 1011 1012", unfolded Let_def,
               THEN conjunct1, rule_format, OF early, THEN conjunct1]
  have n1: "snd (handle_event example_ops (PeriodicTick 1030 1031 1032) w) = [(500000, 0, 0)]"
    using t1 e1 by (simp only: w'_def)
  have n2: "snd (handle_event example_ops (ReservedBitrateChange 0) w') = []"
    using t2 e2 by (simp only:)
  have n3: "snd (handle_event example_ops (PeriodicTick 1010 1011 1012) w) = []"
    by (rule t3)
  from due early l s n1 n2 n3 show ?thesis
    unfolding w'_def w_def snd_conv by (intro conjI)
qed

text \<open>
  The claim fails at two inputs. After \<^verbatim>\<open>SetStartBitrate\<close> the snapshot is
  (500000, 0, 0, 0) and the tuple last notified (0, 0, 0, 0): a tick 10 ms after
  construction, and an estimate of 210000 bps that the suppressor suppresses, both
  leave them different and do not call the observer.
\<close>

theorem early_tick_and_suppressed_estimate_do_not_notify:
  "last_notified configured_controller = (0, 0, 0, 0) \<and>
   snapshot example_ops (snd (fst (handle_event example_ops (PeriodicTick 1010 1011 1012)
       (observer_at_100, configured_controller)))) = (500000, 0, 0, 0) \<and>
   snd (handle_event example_ops (PeriodicTick 1010 1011 1012)
       (observer_at_100, configured_controller)) = [] \<and>
   last_notified screensharing_controller = (0, 0, 0, 0) \<and>
   snapshot example_ops (snd (fst (handle_event example_ops (EstimatedBitrateArrival 1030 210000)
       (observer_at_100, screensharing_controller)))) = (500000, 0, 0, 0) \<and>
   snd (handle_event example_ops (EstimatedBitrateArrival 1030 210000)
       (observer_at_100, screensharing_controller)) = []"
  by code_simp

subsection \<open>The setters\<close>

text \<open>
  Claim C4, as the code has it. The claim says all five setters recompute the snapshot
  and notify on a difference. Only \<^verbatim>\<open>SetReservedBitrate\<close> does: it stores the reserved
  bitrate, calls the observer once with the new snapshot if that differs from the
  tuple last notified, and leaves the snapshot as the tuple last notified.
  \<^verbatim>\<open>SetStartBitrate\<close>, \<^verbatim>\<open>SetMinMaxBitrate\<close>, \<^verbatim>\<open>SetBitrateSent\<close> and \<^verbatim>\<open>SetCodecMode\<close>
  change the estimator or the suppressor and nothing else: they never call the
  observer and leave the tuple last notified as it was.
\<close>

theorem only_SetReservedBitrate_compares_snapshots:
  "(let c' = fst (SetReservedBitrate ops reserved c)
    in reserved_bitrate_bps c' = reserved \<and>
       snd (SetReservedBitrate ops reserved c) = expected_notifications ops c c' \<and>
       last_notified c' = snapshot ops c') \<and>
   SetStartBitrate ops start_bitrate_bps c =
     (c\<lparr>bandwidth_estimation :=
          bwe_SetSendBitrate ops start_bitrate_bps (bandwidth_estimation c)\<rparr>, []) \<and>
   last_notified (fst (SetStartBitrate ops start_bitrate_bps c)) = last_notified c \<and>
   SetMinMaxBitrate ops min_bitrate_bps max_bitrate_bps c =
     (c\<lparr>bandwidth_estimation :=
          bwe_SetMinMaxBitrate ops min_bitrate_bps max_bitrate_bps (bandwidth_estimation c)\<rparr>,
      []) \<and>
   last_notified (fst (SetMinMaxBitrate ops min_bitrate_bps max_bitrate_bps c)) = last_notified c \<and>
   SetBitrateSent ops now bitrate_sent_bps c =
     (c\<lparr>remb_suppressor :=
          remb_SetBitrateSent ops now bitrate_sent_bps (remb_suppressor c)\<rparr>, []) \<and>
   last_notified (fst (SetBitrateSent ops now bitrate_sent_bps c)) = last_notified c \<and>
   SetCodecMode ops now mode c =
     (c\<lparr>remb_suppressor :=
          remb_SetEnabled ops now (mode = kScreensharing) (remb_suppressor c)\<rparr>, []) \<and>
   last_notified (fst (SetCodecMode ops now mode c)) = last_notified c"
proof -
  define cm where "cm = c\<lparr>reserved_bitrate_bps := reserved\<rparr>"
  have lm: "last_notified cm = last_notified c" by (simp add: cm_def)
  have r: "reserved_bitrate_bps (fst (MaybeTriggerOnNetworkChanged ops cm)) = reserved"
    by (simp add: MaybeTriggerOnNetworkChanged_def cm_def Let_def split: prod.splits)
  from MaybeTrigger_expected [OF lm, of ops] r
  have res: "(let c' = fst (SetReservedBitrate ops reserved c)
    in reserved_bitrate_bps c' = reserved \<and>
       snd (SetReservedBitrate ops reserved c) = expected_notifications ops c c' \<and>
       last_notified c' = snapshot ops c')"
    by (simp add: SetReservedBitrate_def cm_def Let_def)
  then show ?thesis
    by (simp add: SetStartBitrate_def SetMinMaxBitrate_def SetBitrateSent_def SetCodecMode_def)
qed

text \<open>
  Reserving 460000 bps of 500000 bps notifies the observer of the minimum, 50000 bps;
  a new start bitrate notifies nobody.
\<close>

theorem only_SetReservedBitrate_compares_snapshots_witness:
  "last_notified configured_controller = (0, 0, 0, 0) \<and>
   snapshot example_ops (fst (SetReservedBitrate example_ops 460000 configured_controller))
     = (50000, 0, 0, 460000) \<and>
   snd (SetReservedBitrate example_ops 460000 configured_controller) = [(50000, 0, 0)] \<and>
   last_notified (fst (SetReservedBitrate example_ops 460000 configured_controller))
     = (50000, 0, 0, 460000) \<and>
   snd (SetStartBitrate example_ops 300000 configured_controller) = []"
proof -
  have l: "last_notified configured_controller = (0, 0, 0, 0)"
    by code_simp
  have s: "snapshot example_ops (fst (SetReservedBitrate example_ops 460000 configured_controller))
     = (50000, 0, 0, 460000)"
    by code_simp
  note t = only_SetReservedBitrate_compares_snapshots
             [of example_ops 460000 configured_controller 300000]
  from t have "snd (SetReservedBitrate example_ops 460000 configured_controller) = [(50000, 0, 0)]
    \<and> last_notified (fst (SetReservedBitrate example_ops 460000 configured_controller))
     = (50000, 0, 0, 460000)"
    by (simp add: Let_def expected_notifications_def l s)
  moreover from t have "snd (SetStartBitrate example_ops 300000 configured_controller) = []"
    by simp
  ultimately show ?thesis using l s by simp
qed

text \<open>
  The claim fails for the four other setters: on a new controller
  \<^verbatim>\<open>SetMinMaxBitrate\<close> moves the snapshot to (50000, 0, 0, 0) and
  \<^verbatim>\<open>SetStartBitrate\<close> to (500000, 0, 0, 0), and \<^verbatim>\<open>SetBitrateSent\<close> and
  \<^verbatim>\<open>SetCodecMode\<close> run while the snapshot differs from the tuple last notified,
  (0, 0, 0, 0); none of them calls the observer.
\<close>

theorem other_setters_do_not_notify:
  "last_notified example_controller = (0, 0, 0, 0) \<and>
   snd (SetMinMaxBitrate example_ops 50000 2000000 example_controller) = [] \<and>
   snapshot example_ops (fst (SetMinMaxBitrate example_ops 50000 2000000 example_controller))
     = (50000, 0, 0, 0) \<and>
   snd (SetStartBitrate example_ops 500000
          (fst (SetMinMaxBitrate example_ops 50000 2000000 example_controller))) = [] \<and>
   snapshot example_ops configured_controller = (500000, 0, 0, 0) \<and>
   last_notified configured_controller = (0, 0, 0, 0) \<and>
   snd (SetBitrateSent example_ops 1000 200000 configured_controller) = [] \<and>
   snd (SetCodecMode example_ops 1000 kScreensharing configured_controller) = [] \<and>
   snapshot example_ops screensharing_controller = (500000, 0, 0, 0) \<and>
   last_notified screensharing_controller = (0, 0, 0, 0)"
  by code_simp

subsection \<open>Boundedness of the estimate\<close>

text \<open>
  These properties are about the estimator as modelled from the specification, for
  every tuning. Each update keeps the invariant when its arguments agree with the
  state.
\<close>

lemma clamp_result_within:
  assumes "min_bitrate s \<le> max_bitrate s"
      and "case receiver_cap s of None \<Rightarrow> True | Some cap \<Rightarrow> min_bitrate s \<le> cap"
  shows "min_bitrate s \<le> clamp_result s b \<and> clamp_result s b \<le> max_bitrate s \<and>
         (case receiver_cap s of None \<Rightarrow> True | Some cap \<Rightarrow> clamp_result s b \<le> cap)"
  using assms
  by (cases "receiver_cap s")
     (auto simp add: clamp_result_def ceiling_bitrate_def max_def min_def)

lemma within_bounds_consistent:
  assumes "within_bounds s"
  shows "min_bitrate s \<le> max_bitrate s"
    and "case receiver_cap s of None \<Rightarrow> True | Some cap \<Rightarrow> min_bitrate s \<le> cap"
  using assms
  by (auto simp add: within_bounds_def current_estimate_def split: option.splits)

lemma within_bounds_clamped:
  assumes "within_bounds s"
  shows "within_bounds (s\<lparr>send_bitrate := clamp_result s b\<rparr>)"
proof -
  from clamp_result_within [OF within_bounds_consistent [OF assms], of b]
  show ?thesis
    by (auto simp add: within_bounds_def current_estimate_def split: option.splits)
qed

lemma apply_update_within_bounds:
  assumes "within_bounds s" and "agrees s u"
  shows "within_bounds (apply_update tun u s)"
proof (cases u)
  case (Set_send_bitrate bps)
  with assms show ?thesis
    by (cases "receiver_cap s")
       (auto simp add: within_bounds_def current_estimate_def set_send_bitrate_def
          max_def min_def)
next
  case (Set_min_max_bitrate lo hi)
  with assms show ?thesis
    by (auto simp add: within_bounds_def current_estimate_def set_min_max_bitrate_def
          split: option.splits)
next
  case (Update_receiver_estimate cap_bps)
  with assms show ?thesis
    by (auto simp add: within_bounds_def current_estimate_def update_receiver_estimate_def
          min_def split: option.splits)
next
  case (Update_receiver_block fraction_loss rtt_ms packet_count now_ms)
  define candidate where "candidate =
              (if high_water_mark tun < fraction_loss
               then decreased tun fraction_loss (send_bitrate s)
               else if fraction_loss < low_water_mark tun
               then increased tun rtt_ms (send_bitrate s)
               else send_bitrate s)"
  from within_bounds_clamped [OF assms(1), of candidate]
  have "within_bounds (s\<lparr>send_bitrate := clamp_result s candidate,
             last_loss_fraction := fraction_loss,
             last_rtt_ms_seen := rtt_ms,
             last_update_time := now_ms\<rparr>)"
    by (auto simp add: within_bounds_def current_estimate_def split: option.splits)
  with assms(1) show ?thesis
    by (simp add: Update_receiver_block update_receiver_block_def Let_def
          candidate_def [symmetric])
next
  case (Update_estimate now_ms)
  from within_bounds_clamped [OF assms(1), of "decayed tun (send_bitrate s)"] assms(1)
  show ?thesis
    by (simp add: Update_estimate update_estimate_def)
qed

lemma all_agree_take:
  "all_agree tun us s \<Longrightarrow> all_agree tun (take k us) s"
proof (induction us arbitrary: s k)
  case Nil
  then show ?case by simp
next
  case (Cons u us)
  then show ?case by (cases k) simp_all
qed

lemma run_updates_within_bounds:
  "within_bounds s \<Longrightarrow> all_agree tun us s \<Longrightarrow> within_bounds (run_updates tun us s)"
proof (induction us arbitrary: s)
  case Nil
  then show ?case by simp
next
  case (Cons u us)
  from Cons.prems have "within_bounds (apply_update tun u s)"
    by (simp add: apply_update_within_bounds)
  moreover from Cons.prems have "all_agree tun us (apply_update tun u s)"
    by simp
  ultimately show ?case
    by (simp add: Cons.IH)
qed

text \<open>
  Claim C1, as the modelled estimator has it. The claim says the estimate stays within
  the bounds and below the receiver cap for every sequence of updates. It does when
  the sequence starts in a state whose bitrate is within the bounds and not above the
  cap, and every update agrees with the state it meets: new bounds enclose the current
  bitrate, a new receiver cap is not below the minimum, and a forced bitrate is not
  above the receiver cap. Then after every prefix of the sequence the bitrate of
  \<open>current_estimate\<close> is at least the minimum, at most the maximum, and at most the
  receiver cap if one is set.
\<close>

theorem estimate_stays_within_bounds_when_updates_agree:
  assumes "within_bounds s" and "all_agree tun us s" and "k \<le> length us"
  shows "within_bounds (run_updates tun (take k us) s) \<and>
         min_bitrate (run_updates tun (take k us) s)
           \<le> fst (current_estimate (run_updates tun (take k us) s)) \<and>
         fst (current_estimate (run_updates tun (take k us) s))
           \<le> max_bitrate (run_updates tun (take k us) s) \<and>
         (\<forall>cap. receiver_cap (run_updates tun (take k us) s) = Some cap \<longrightarrow>
            fst (current_estimate (run_updates tun (take k us) s)) \<le> cap)"
proof -
  from assms(2) have "all_agree tun (take k us) s"
    by (rule all_agree_take)
  with assms(1) have w: "within_bounds (run_updates tun (take k us) s)"
    by (rule run_updates_within_bounds)
  then show ?thesis
    by (auto simp add: within_bounds_def split: option.splits)
qed

text \<open>
  From 500000 bps within 50000 and 2000000 bps, a cap of 300000 bps, a report with
  loss 250, a report without loss and a stale tick leave 145742 bps, above the minimum
  and below the cap.
\<close>

theorem estimate_stays_within_bounds_when_updates_agree_witness:
  "within_bounds configured_estimator \<and>
   all_agree example_tuning feedback_updates configured_estimator \<and>
   within_bounds (run_updates example_tuning feedback_updates configured_estimator) \<and>
   current_estimate (run_updates example_tuning feedback_updates configured_estimator)
     = (145742, 0, 50) \<and>
   min_bitrate (run_updates example_tuning feedback_updates configured_estimator) = 50000 \<and>
   receiver_cap (run_updates example_tuning feedback_updates configured_estimator)
     = Some 300000"
proof -
  have w: "within_bounds configured_estimator"
    by code_simp
  have a: "all_agree example_tuning feedback_updates configured_estimator"
    by code_simp
  have k: "4 \<le> length feedback_updates"
    by (simp add: feedback_updates_def)
  have t: "take 4 feedback_updates = feedback_updates"
    by (simp add: feedback_updates_def)
  have c: "current_estimate (run_updates example_tuning feedback_updates configured_estimator)
     = (145742, 0, 50)"
    by code_simp
  have m: "min_bitrate (run_updates example_tuning feedback_updates configured_estimator) = 50000"
    by code_simp
  have r: "receiver_cap (run_updates example_tuning feedback_updates configured_estimator)
     = Some 300000"
    by code_simp
  from estimate_stays_within_bounds_when_updates_agree [OF w a k, THEN conjunct1]
  have "within_bounds (run_updates example_tuning feedback_updates configured_estimator)"
    by (simp only: t)
  with w a c m r show ?thesis by (intro conjI)
qed

text \<open>
  The claim fails where an update does not agree with the state. A receiver cap of
  30000 bps below the minimum of 50000 bps takes the bitrate to 30000 bps, below the
  minimum. A forced bitrate of 500000 bps after a cap of 300000 bps is clamped to the
  bounds only and stays above the cap. A new maximum of 400000 bps leaves the bitrate
  of 500000 bps above it. And on a new estimator, bounds with a minimum of 50000 bps
  leave the bitrate at zero.
\<close>

theorem estimate_leaves_bounds_when_updates_disagree:
  "current_estimate (run_updates example_tuning [Update_receiver_estimate 30000]
      configured_estimator) = (30000, 0, 0) \<and>
   min_bitrate (run_updates example_tuning [Update_receiver_estimate 30000]
      configured_estimator) = 50000 \<and>
   \<not> within_bounds (run_updates example_tuning [Update_receiver_estimate 30000]
      configured_estimator) \<and>
   current_estimate (run_updates example_tuning
      [Update_receiver_estimate 300000, Set_send_bitrate 500000] configured_estimator)
     = (500000, 0, 0) \<and>
   receiver_cap (run_updates example_tuning
      [Update_receiver_estimate 300000, Set_send_bitrate 500000] configured_estimator)
     = Some 300000 \<and>
   current_estimate (run_updates example_tuning [Set_min_max_bitrate 50000 400000]
      configured_estimator) = (500000, 0, 0) \<and>
   max_bitrate (run_updates example_tuning [Set_min_max_bitrate 50000 400000]
      configured_estimator) = 400000 \<and>
   current_estimate (run_updates example_tuning [Set_min_max_bitrate 50000 2000000]
      EstimationState_new) = (0, 0, 0) \<and>
   min_bitrate (run_updates example_tuning [Set_min_max_bitrate 50000 2000000]
      EstimationState_new) = 50000"
  by code_simp

end
